theory Spec2Isabelle
  imports Main
begin

section \<open>JavaScript values\<close>

text \<open>
  Text is a list of characters, a character standing for the UTF-16 code unit of the same
  number: the text modelled is the text of code units below 256.

  The values below are those that travel through \<^verbatim>\<open>JSON.parse\<close> and \<^verbatim>\<open>JSON.stringify\<close>
  in \<^verbatim>\<open>static/script.js\<close>. An object is the list of its own properties in insertion order.
  A number is kept as the text \<^verbatim>\<open>Number.prototype.toString\<close> gives for it: besides that
  text the script observes of a number only whether it is zero.
\<close>

datatype jsval =
    JUndefined
  | JNull
  | JBool bool
  | JNum string
  | JStr string
  | JArr "jsval list"
  | JObj "(string \<times> jsval) list"

text \<open>What the script's \<^verbatim>\<open>if (x)\<close>, \<^verbatim>\<open>!x\<close>, \<^verbatim>\<open>Boolean(x)\<close> and \<^verbatim>\<open>x || y\<close> test.\<close>

fun truthy :: "jsval \<Rightarrow> bool" where
  "truthy JUndefined = False"
| "truthy JNull = False"
| "truthy (JBool b) = b"
| "truthy (JNum n) = (n \<noteq> ''0'' \<and> n \<noteq> ''NaN'')"
| "truthy (JStr s) = (s \<noteq> [])"
| "truthy (JArr vs) = True"
| "truthy (JObj kvs) = True"

definition js_or :: "jsval \<Rightarrow> jsval \<Rightarrow> jsval" where
  "js_or a b = (if truthy a then a else b)"

text \<open>
  What a handler can throw, or an awaited promise reject with: a \<^verbatim>\<open>TypeError\<close> or
  \<^verbatim>\<open>SyntaxError\<close> of the language, or an error of the browser named by its \<^verbatim>\<open>name\<close>.
\<close>

datatype exn = TypeError | SyntaxError | DOMException string

text \<open>
  \<^verbatim>\<open>v.k\<close>: reading a property of \<^verbatim>\<open>null\<close> or \<^verbatim>\<open>undefined\<close> throws; a primitive or an
  array has none of the properties the script reads, so the read gives \<^verbatim>\<open>undefined\<close>.
\<close>

fun get_prop :: "jsval \<Rightarrow> string \<Rightarrow> exn + jsval" where
  "get_prop JUndefined k = Inl TypeError"
| "get_prop JNull k = Inl TypeError"
| "get_prop (JObj kvs) k = Inr (case map_of kvs k of None \<Rightarrow> JUndefined | Some v \<Rightarrow> v)"
| "get_prop v k = Inr JUndefined"

text \<open>\<^verbatim>\<open>v?.k\<close>: as \<^verbatim>\<open>v.k\<close>, but \<^verbatim>\<open>undefined\<close> where \<^verbatim>\<open>v.k\<close> throws.\<close>

definition opt_prop :: "jsval \<Rightarrow> string \<Rightarrow> jsval" where
  "opt_prop v k = (case get_prop v k of Inl e \<Rightarrow> JUndefined | Inr x \<Rightarrow> x)"

text \<open>
  The conversion of a value to a string (\<^verbatim>\<open>ToString\<close>), which the page applies to whatever
  is assigned to \<^verbatim>\<open>textContent\<close> or \<^verbatim>\<open>src\<close> or handed to \<^verbatim>\<open>createTextNode\<close>. An array joins
  the conversions of its elements with commas, \<^verbatim>\<open>null\<close> and \<^verbatim>\<open>undefined\<close> elements giving
  nothing. A parsed object converts through \<^verbatim>\<open>Object.prototype.toString\<close>, unless it has a
  property \<^verbatim>\<open>toString\<close> of its own: that is no function, \<^verbatim>\<open>valueOf\<close> gives no primitive,
  and the conversion throws.
\<close>

fun to_string :: "jsval \<Rightarrow> exn + string"
  and join_elements :: "jsval list \<Rightarrow> exn + string" where
  "to_string JUndefined = Inr ''undefined''"
| "to_string JNull = Inr ''null''"
| "to_string (JBool b) = Inr (if b then ''true'' else ''false'')"
| "to_string (JNum n) = Inr n"
| "to_string (JStr s) = Inr s"
| "to_string (JArr vs) = join_elements vs"
| "to_string (JObj kvs) =
     (if ''toString'' \<in> set (map fst kvs) then Inl TypeError else Inr ''[object Object]'')"
| "join_elements [] = Inr []"
| "join_elements (v # vs) =
     (case (if v = JUndefined \<or> v = JNull then Inr [] else to_string v) of
        Inl e \<Rightarrow> Inl e
      | Inr a \<Rightarrow>
          (if vs = [] then Inr a
           else case join_elements vs of Inl e \<Rightarrow> Inl e | Inr b \<Rightarrow> Inr (a @ '','' @ b)))"

text \<open>
  \<^verbatim>\<open>textContent\<close> is a nullable string: assigning \<^verbatim>\<open>null\<close> or \<^verbatim>\<open>undefined\<close> empties it.
\<close>

definition to_textContent :: "jsval \<Rightarrow> exn + string" where
  "to_textContent v = (if v = JNull \<or> v = JUndefined then Inr [] else to_string v)"

text \<open>
  \<^verbatim>\<open>String.prototype.startsWith\<close>, and \<^verbatim>\<open>String.prototype.trim\<close>: of the code units below
  256 it strips tab, line feed, vertical tab, form feed, carriage return, space and
  no-break space.
\<close>

fun startsWith :: "string \<Rightarrow> string \<Rightarrow> bool" where
  "startsWith s [] = True"
| "startsWith [] (p # ps) = False"
| "startsWith (c # cs) (p # ps) = (c = p \<and> startsWith cs ps)"

definition is_space :: "char \<Rightarrow> bool" where
  "is_space c =
     (c \<in> set [CHR 0x09, CHR 0x0A, CHR 0x0B, CHR 0x0C, CHR 0x0D, CHR 0x20, CHR 0xA0])"

definition trim :: "string \<Rightarrow> string" where
  "trim s = rev (dropWhile is_space (rev (dropWhile is_space s)))"

section \<open>The page's state\<close>

datatype ready_state = CONNECTING | OPEN | CLOSING | CLOSED

record web_socket =
  ws_url :: string
  readyState :: ready_state

text \<open>A media stream is the list of its tracks, a track a number.\<close>

type_synonym media_stream = "nat list"

text \<open>
  An \<^verbatim>\<open>RTCPeerConnection\<close> object: whether \<^verbatim>\<open>close()\<close> was called on it, whether its two
  handlers are set, the tracks added to it and the descriptions applied to it.
\<close>

record peer_conn =
  pc_closed :: bool
  pc_onicecandidate :: bool
  pc_ontrack :: bool
  pc_senders :: "(nat \<times> media_stream) list"
  pc_localDescription :: "jsval option"
  pc_remoteDescription :: "jsval option"

definition new_peer_conn :: peer_conn where
  "new_peer_conn = \<lparr> pc_closed = False, pc_onicecandidate = False, pc_ontrack = False,
     pc_senders = [], pc_localDescription = None, pc_remoteDescription = None \<rparr>"

text \<open>A \<^verbatim>\<open>File\<close> of the file input.\<close>

record js_file =
  file_name :: string
  file_type :: string
  file_size :: nat

text \<open>
  A child of \<^verbatim>\<open>chatMessages\<close>: the class name, the label, the text node's data and the
  \<^verbatim>\<open>img\<close>/\<^verbatim>\<open>video\<close> elements (tag and \<^verbatim>\<open>src\<close>) that \<^verbatim>\<open>appendMessage\<close> adds.
\<close>

record msg_node =
  msg_class :: string
  msg_label :: string
  msg_text :: string
  msg_media :: "(string \<times> string) list"

text \<open>
  A handler of the socket that stands at an \<^verbatim>\<open>await\<close> of a call on a peer connection: the
  call it waits for, the index of the connection the call was made on, and the values its
  continuation holds. While it waits, other handlers run.
\<close>

datatype task =
    Matched_createOffer nat
  | Matched_setLocalDescription nat jsval
  | Offer_setRemoteDescription nat jsval
  | Offer_createAnswer nat
  | Offer_setLocalDescription nat jsval
  | Answer_setRemoteDescription nat jsval
  | Ice_addIceCandidate nat

fun task_pc :: "task \<Rightarrow> nat" where
  "task_pc (Matched_createOffer p) = p"
| "task_pc (Matched_setLocalDescription p d) = p"
| "task_pc (Offer_setRemoteDescription p d) = p"
| "task_pc (Offer_createAnswer p) = p"
| "task_pc (Offer_setLocalDescription p d) = p"
| "task_pc (Answer_setRemoteDescription p d) = p"
| "task_pc (Ice_addIceCandidate p) = p"

text \<open>
  The script's four variables, the objects they point to and the parts of the page it
  reads and writes. \<open>pcs\<close> is the store of the peer connections constructed so far;
  \<open>peerConnection\<close> holds an index into it. \<open>pending\<close> lists the handlers that stand at an
  \<^verbatim>\<open>await\<close>. \<open>sentFrames\<close> lists the objects handed to \<^verbatim>\<open>JSON.stringify\<close> and transmitted
  by \<^verbatim>\<open>ws.send\<close>, oldest first; \<open>console\<close> the arguments of \<^verbatim>\<open>console.error\<close>;
  \<open>stoppedTracks\<close> the tracks \<^verbatim>\<open>stop()\<close> was called on.
\<close>

record state =
  ws :: "web_socket option"
  peerConnection :: "nat option"
  localStream :: "media_stream option"
  connected :: bool
  pcs :: "peer_conn list"
  pending :: "task list"
  sentFrames :: "jsval list"
  console :: "exn list"
  stoppedTracks :: "nat list"
  location_protocol :: string
  location_host :: string
  startBtn_disabled :: bool
  nextBtn_disabled :: bool
  statusText :: string
  statusDot :: "string list"
  localVideo_srcObject :: "media_stream option"
  remoteVideo_srcObject :: "media_stream option"
  chatMessages :: "msg_node list"
  chatInput_value :: string
  fileInput_files :: "js_file list"

text \<open>
  The outcome of running a handler, or a stretch of one: the state it leaves, and the
  exception it threw (or its promise rejected with), if any. What was written before the
  throw stays written.
\<close>

type_synonym result = "exn option \<times> state"

definition and_then :: "result \<Rightarrow> (state \<Rightarrow> result) \<Rightarrow> result" where
  "and_then r f = (case r of (None, s) \<Rightarrow> f s | (Some e, s) \<Rightarrow> (Some e, s))"

definition ok :: "state \<Rightarrow> result" where
  "ok s = (None, s)"

definition throw :: "exn \<Rightarrow> state \<Rightarrow> result" where
  "throw e s = (Some e, s)"

text \<open>
  What the browser answers to the calls a handler makes, one answer per call site: a
  stretch of a handler makes each call at most once. \<open>Inl\<close> and \<open>Some\<close> are a throw or a
  rejection.
\<close>

record env =
  getUserMedia :: "exn + media_stream"
  newWebSocket :: "exn option"
  newRTCPeerConnection :: "exn option"
  createOffer :: "exn + jsval"
  createAnswer :: "exn + jsval"
  setLocalDescription :: "exn option"
  newRTCSessionDescription :: "exn option"
  setRemoteDescription :: "exn option"
  newRTCIceCandidate :: "exn option"
  addIceCandidate :: "exn option"
  readAsDataURL :: "exn + string"

section \<open>The functions of the script\<close>

text \<open>
  Each function of \<^verbatim>\<open>static/script.js\<close> is a function on the state.

  An \<^verbatim>\<open>await\<close> of one of the script's own \<^verbatim>\<open>async\<close> functions whose body has run to its end
  (\<^verbatim>\<open>createPeerConnection\<close>, \<^verbatim>\<open>connectWebSocket\<close>, \<^verbatim>\<open>ensureLocalMedia\<close> with the stream
  there) resumes before any other handler can run, so the caller goes on in the same
  stretch. An \<^verbatim>\<open>await\<close> of a call on a peer connection ends the stretch: the handler is
  put into \<open>pending\<close>, other handlers run, and the event \<open>Settle\<close> resumes it with the
  browser's answer. The continuation reads \<^verbatim>\<open>peerConnection\<close> and \<^verbatim>\<open>ws\<close> as they are then.

  Two awaits are run in one stretch with what follows them. Until \<^verbatim>\<open>getUserMedia\<close>
  settles there is no socket and no peer connection, and no handler that can run in
  between reads or writes what the rest of the click handler does. The rest of
  \<^verbatim>\<open>sendFileMessage\<close> after the file is read uses the file and the payload fixed before
  the await and sends through \<^verbatim>\<open>sendWs\<close>. The page is connected when the file is chosen,
  so its socket has been open, and a socket never returns to the open state: whenever the
  handler sends after the wait, the socket was open when the file was chosen, and the run
  in one stretch sends the same frame.
\<close>

definition classList_remove :: "string list \<Rightarrow> string list \<Rightarrow> string list" where
  "classList_remove cs l = filter (\<lambda>c. c \<notin> set cs) l"

definition classList_add :: "string \<Rightarrow> string list \<Rightarrow> string list" where
  "classList_add c l = (if c \<in> set l then l else l @ [c])"

text \<open>The assignment to \<^verbatim>\<open>textContent\<close> converts, and throws before the classes change.\<close>

definition updateStatus :: "string \<Rightarrow> jsval \<Rightarrow> state \<Rightarrow> result" where
  "updateStatus st txt s =
     (case to_textContent txt of
        Inl e \<Rightarrow> throw e s
      | Inr str \<Rightarrow>
          ok (s\<lparr> statusText := str,
                 statusDot := classList_add st
                   (classList_remove [''waiting'', ''connected'', ''disconnected''] (statusDot s)) \<rparr>))"

text \<open>
  \<open>media\<close> is \<^verbatim>\<open>null\<close> or the object \<^verbatim>\<open>{mimeType, dataUrl}\<close>. \<^verbatim>\<open>createTextNode\<close> converts
  its argument, \<^verbatim>\<open>media.mimeType.startsWith\<close> throws on anything but a string and the
  assignment to \<^verbatim>\<open>src\<close> converts; each throws before the wrapper is appended.
\<close>

definition appendMessage :: "string \<Rightarrow> jsval \<Rightarrow> (jsval \<times> jsval) option \<Rightarrow> state \<Rightarrow> result" where
  "appendMessage kind txt media s =
     (let label = (if kind = ''you'' then ''You''
                   else if kind = ''stranger'' then ''Stranger'' else ''System'')
      in case to_string (js_or txt (JStr [])) of
           Inl e \<Rightarrow> throw e s
         | Inr str \<Rightarrow>
             (let wrapper = \<lparr> msg_class = ''msg '' @ kind, msg_label = label @ '': '',
                              msg_text = str, msg_media = [] \<rparr>
              in case media of
                   None \<Rightarrow> ok (s\<lparr> chatMessages := chatMessages s @ [wrapper] \<rparr>)
                 | Some (mimeType, dataUrl) \<Rightarrow>
                     (case mimeType of
                        JStr m \<Rightarrow>
                          (let tags = (if startsWith m ''image/'' then [''img''] else []) @
                                      (if startsWith m ''video/'' then [''video''] else [])
                           in if tags = []
                              then ok (s\<lparr> chatMessages := chatMessages s @ [wrapper] \<rparr>)
                              else case to_string dataUrl of
                                     Inl e \<Rightarrow> throw e s
                                   | Inr src \<Rightarrow>
                                       ok (s\<lparr> chatMessages := chatMessages s @
                                             [wrapper\<lparr> msg_media :=
                                                map (\<lambda>tag. (tag, src)) tags \<rparr>] \<rparr>))
                      | _ \<Rightarrow> throw TypeError s)))"

definition ensureLocalMedia :: "env \<Rightarrow> state \<Rightarrow> result" where
  "ensureLocalMedia env s =
     (if localStream s \<noteq> None then ok s
      else case getUserMedia env of
             Inl e \<Rightarrow> throw e s
           | Inr stream \<Rightarrow> ok (s\<lparr> localStream := Some stream, localVideo_srcObject := Some stream \<rparr>))"

definition closePeerConnection :: "state \<Rightarrow> state" where
  "closePeerConnection s =
     (case peerConnection s of
        Some p \<Rightarrow>
          s\<lparr> pcs := (pcs s)[p := (pcs s ! p)\<lparr> pc_onicecandidate := False, pc_ontrack := False,
                                             pc_closed := True \<rparr>],
             peerConnection := None \<rparr>
      | None \<Rightarrow> s)
     \<lparr> remoteVideo_srcObject := None \<rparr>"

text \<open>
  The new connection is stored at the first free index. \<^verbatim>\<open>localStream.getTracks()\<close> throws
  when \<^verbatim>\<open>localStream\<close> is \<^verbatim>\<open>null\<close>, after \<^verbatim>\<open>peerConnection\<close> was assigned.
\<close>

definition createPeerConnection :: "env \<Rightarrow> state \<Rightarrow> result" where
  "createPeerConnection env s =
     (let s1 = closePeerConnection s in
      case newRTCPeerConnection env of
        Some e \<Rightarrow> throw e s1
      | None \<Rightarrow>
          (let p = length (pcs s1);
               s2 = s1\<lparr> pcs := pcs s1 @ [new_peer_conn], peerConnection := Some p \<rparr>
           in case localStream s2 of
                None \<Rightarrow> throw TypeError s2
              | Some stream \<Rightarrow>
                  ok (s2\<lparr> pcs := (pcs s2)[p := (pcs s2 ! p)
                        \<lparr> pc_senders := map (\<lambda>track. (track, stream)) stream,
                          pc_onicecandidate := True, pc_ontrack := True \<rparr>] \<rparr>)))"

text \<open>
  \<^verbatim>\<open>WebSocket.send\<close> as the browser has it: it throws on a socket that is still
  connecting and discards the data on one that is closing or closed.
\<close>

definition socket_send :: "web_socket \<Rightarrow> jsval \<Rightarrow> state \<Rightarrow> result" where
  "socket_send w d s =
     (case readyState w of
        CONNECTING \<Rightarrow> throw (DOMException ''InvalidStateError'') s
      | OPEN \<Rightarrow> ok (s\<lparr> sentFrames := sentFrames s @ [d] \<rparr>)
      | CLOSING \<Rightarrow> ok s
      | CLOSED \<Rightarrow> ok s)"

definition sendWs :: "jsval \<Rightarrow> state \<Rightarrow> result" where
  "sendWs d s =
     (case ws s of
        None \<Rightarrow> ok s
      | Some w \<Rightarrow> if readyState w = OPEN then socket_send w d s else ok s)"

text \<open>
  \<^verbatim>\<open>await peerConnection.m(...)\<close>: the method is looked up on the object \<^verbatim>\<open>peerConnection\<close>
  points to, which throws on \<^verbatim>\<open>null\<close>; the call is made and the handler waits.
\<close>

definition await_pc :: "(nat \<Rightarrow> task) \<Rightarrow> state \<Rightarrow> result" where
  "await_pc waiting s =
     (case peerConnection s of
        None \<Rightarrow> throw TypeError s
      | Some p \<Rightarrow> ok (s\<lparr> pending := pending s @ [waiting p] \<rparr>))"

definition offer_msg :: "jsval \<Rightarrow> jsval" where
  "offer_msg offer = JObj [(''type'', JStr ''offer''), (''payload'', offer)]"

text \<open>
  \<^verbatim>\<open>handleMatched\<close> up to its \<^verbatim>\<open>await peerConnection.createOffer()\<close>, and its two
  continuations: after the offer is there, and after the local description was set on the
  connection \<open>p\<close> the call was made on.
\<close>

definition handleMatched :: "env \<Rightarrow> bool \<Rightarrow> state \<Rightarrow> result" where
  "handleMatched env isInitiator s =
     and_then (updateStatus ''connected'' (JStr ''Connected'')
                 (s\<lparr> connected := True, nextBtn_disabled := False \<rparr>))
       (\<lambda>s0. and_then
          (appendMessage ''system'' (JStr ''You are now connected to a stranger.'') None s0)
       (\<lambda>s1. and_then (createPeerConnection env s1)
       (\<lambda>s2. if isInitiator then await_pc Matched_createOffer s2 else ok s2)))"

definition handleMatched_offer_created :: "jsval \<Rightarrow> state \<Rightarrow> result" where
  "handleMatched_offer_created offer s =
     await_pc (\<lambda>p. Matched_setLocalDescription p offer) s"

definition handleMatched_description_set :: "nat \<Rightarrow> jsval \<Rightarrow> state \<Rightarrow> result" where
  "handleMatched_description_set p offer s =
     sendWs (offer_msg offer)
       (s\<lparr> pcs := (pcs s)[p := (pcs s ! p)\<lparr> pc_localDescription := Some offer \<rparr>] \<rparr>)"

text \<open>The parameter's default value stands in for \<^verbatim>\<open>undefined\<close>.\<close>

definition resetForWaiting :: "jsval \<Rightarrow> state \<Rightarrow> result" where
  "resetForWaiting arg s =
     (let msg = (if arg = JUndefined then JStr ''Waiting for a stranger...'' else arg)
      in updateStatus ''waiting'' msg (closePeerConnection (s\<lparr> connected := False \<rparr>)))"

text \<open>
  \<^verbatim>\<open>connectWebSocket\<close> makes the socket, which starts out connecting, and sets its three
  handlers; they follow as \<open>onopen\<close>, \<open>onmessage\<close> and \<open>onclose\<close>.
\<close>

definition connectWebSocket :: "env \<Rightarrow> state \<Rightarrow> result" where
  "connectWebSocket env s =
     (let protocol = (if location_protocol s = ''https:'' then ''wss'' else ''ws'') in
      case newWebSocket env of
        Some e \<Rightarrow> throw e s
      | None \<Rightarrow>
          ok (s\<lparr> ws := Some \<lparr> ws_url = protocol @ ''://'' @ location_host s @ ''/ws'',
                              readyState = CONNECTING \<rparr> \<rparr>))"

definition onopen :: "state \<Rightarrow> result" where
  "onopen s =
     and_then (updateStatus ''waiting'' (JStr ''Waiting for a stranger...'') s)
       (appendMessage ''system'' (JStr ''Socket connected. Matchmaking started.'') None)"

definition answer_msg :: "jsval \<Rightarrow> jsval" where
  "answer_msg answer = JObj [(''type'', JStr ''answer''), (''payload'', answer)]"

text \<open>
  \<^verbatim>\<open>await peerConnection.setRemoteDescription(new RTCSessionDescription(d))\<close>: the method is
  looked up first, then the argument is constructed, then the call is made.
\<close>

definition await_setRemoteDescription ::
  "env \<Rightarrow> (nat \<Rightarrow> task) \<Rightarrow> state \<Rightarrow> result" where
  "await_setRemoteDescription env waiting s =
     (case peerConnection s of
        None \<Rightarrow> throw TypeError s
      | Some p \<Rightarrow>
          (case newRTCSessionDescription env of
             Some e \<Rightarrow> throw e s
           | None \<Rightarrow> ok (s\<lparr> pending := pending s @ [waiting p] \<rparr>)))"

definition await_addIceCandidate :: "env \<Rightarrow> state \<Rightarrow> result" where
  "await_addIceCandidate env s =
     (case peerConnection s of
        None \<Rightarrow> throw TypeError s
      | Some p \<Rightarrow>
          (case newRTCIceCandidate env of
             Some e \<Rightarrow> throw e s
           | None \<Rightarrow> ok (s\<lparr> pending := pending s @ [Ice_addIceCandidate p] \<rparr>)))"

text \<open>
  \<open>parsed\<close> is what \<^verbatim>\<open>JSON.parse(event.data)\<close> returns, \<open>None\<close> when it throws. Once
  \<^verbatim>\<open>data.type\<close> was read without a throw, \<^verbatim>\<open>data\<close> is neither \<^verbatim>\<open>null\<close> nor
  \<^verbatim>\<open>undefined\<close>, and \<^verbatim>\<open>data.k\<close> is \<open>opt_prop data k\<close>. The \<^verbatim>\<open>switch\<close> compares with
  \<^verbatim>\<open>===\<close>, in the order of its cases. This is the handler up to its first \<^verbatim>\<open>await\<close> of
  a call on the peer connection; the continuations of the \<^verbatim>\<open>offer\<close> case follow.
\<close>

definition onmessage :: "env \<Rightarrow> jsval option \<Rightarrow> state \<Rightarrow> result" where
  "onmessage env parsed s =
     (case parsed of
        None \<Rightarrow> throw SyntaxError s
      | Some data \<Rightarrow>
     (case get_prop data ''type'' of
        Inl e \<Rightarrow> throw e s
      | Inr ty \<Rightarrow>
          if ty = JStr ''connected'' then ok s
          else if ty = JStr ''status'' then
            resetForWaiting
              (js_or (opt_prop data ''message'') (JStr ''Waiting for a stranger...'')) s
          else if ty = JStr ''matched'' then
            handleMatched env (truthy (opt_prop data ''isInitiator'')) s
          else if ty = JStr ''offer'' then
            and_then (if peerConnection s = None then createPeerConnection env s else ok s)
              (await_setRemoteDescription env
                 (\<lambda>p. Offer_setRemoteDescription p (opt_prop data ''payload'')))
          else if ty = JStr ''answer'' then
            (if peerConnection s \<noteq> None
             then await_setRemoteDescription env
                    (\<lambda>p. Answer_setRemoteDescription p (opt_prop data ''payload'')) s
             else ok s)
          else if ty = JStr ''ice_candidate'' then
            (if peerConnection s \<noteq> None \<and> truthy (opt_prop data ''payload'')
             then await_addIceCandidate env s else ok s)
          else if ty = JStr ''chat'' then
            appendMessage ''stranger''
              (js_or (opt_prop (opt_prop data ''payload'') ''text'') (JStr [])) None s
          else if ty = JStr ''media'' then
            appendMessage ''stranger''
              (js_or (opt_prop (opt_prop data ''payload'') ''text'') (JStr ''Shared a file''))
              (Some (js_or (opt_prop (opt_prop data ''payload'') ''mimeType'')
                       (JStr ''application/octet-stream''),
                     js_or (opt_prop (opt_prop data ''payload'') ''dataUrl'') (JStr []))) s
          else if ty = JStr ''partner_disconnected'' then
            and_then
              (appendMessage ''system''
                 (js_or (opt_prop data ''message'') (JStr ''Stranger disconnected.'')) None s)
              (resetForWaiting (JStr ''Waiting for a stranger...''))
          else if ty = JStr ''error'' then
            appendMessage ''system''
              (js_or (opt_prop data ''message'') (JStr ''Server error.'')) None s
          else ok s))"

text \<open>
  The \<^verbatim>\<open>offer\<close> case after the remote description was set on the connection \<open>p\<close>, after
  the answer is there, and after the local description was set on \<open>p\<close>.
\<close>

definition offer_remote_set :: "nat \<Rightarrow> jsval \<Rightarrow> state \<Rightarrow> result" where
  "offer_remote_set p d s =
     await_pc Offer_createAnswer
       (s\<lparr> pcs := (pcs s)[p := (pcs s ! p)\<lparr> pc_remoteDescription := Some d \<rparr>] \<rparr>)"

definition offer_answer_created :: "jsval \<Rightarrow> state \<Rightarrow> result" where
  "offer_answer_created answer s = await_pc (\<lambda>p. Offer_setLocalDescription p answer) s"

definition offer_description_set :: "nat \<Rightarrow> jsval \<Rightarrow> state \<Rightarrow> result" where
  "offer_description_set p answer s =
     sendWs (answer_msg answer)
       (s\<lparr> pcs := (pcs s)[p := (pcs s ! p)\<lparr> pc_localDescription := Some answer \<rparr>] \<rparr>)"

text \<open>The \<^verbatim>\<open>answer\<close> case after the remote description was set: the handler ends.\<close>

definition answer_remote_set :: "nat \<Rightarrow> jsval \<Rightarrow> state \<Rightarrow> result" where
  "answer_remote_set p d s =
     ok (s\<lparr> pcs := (pcs s)[p := (pcs s ! p)\<lparr> pc_remoteDescription := Some d \<rparr>] \<rparr>)"

text \<open>
  A waiting handler goes on with the browser's answer to the call it waits for: a
  rejection is thrown at the \<^verbatim>\<open>await\<close> and ends the handler.
\<close>

fun resume :: "env \<Rightarrow> task \<Rightarrow> state \<Rightarrow> result" where
  "resume env (Matched_createOffer p) s =
     (case createOffer env of
        Inl e \<Rightarrow> throw e s
      | Inr offer \<Rightarrow> handleMatched_offer_created offer s)"
| "resume env (Matched_setLocalDescription p offer) s =
     (case setLocalDescription env of
        Some e \<Rightarrow> throw e s
      | None \<Rightarrow> handleMatched_description_set p offer s)"
| "resume env (Offer_setRemoteDescription p d) s =
     (case setRemoteDescription env of
        Some e \<Rightarrow> throw e s
      | None \<Rightarrow> offer_remote_set p d s)"
| "resume env (Offer_createAnswer p) s =
     (case createAnswer env of
        Inl e \<Rightarrow> throw e s
      | Inr answer \<Rightarrow> offer_answer_created answer s)"
| "resume env (Offer_setLocalDescription p answer) s =
     (case setLocalDescription env of
        Some e \<Rightarrow> throw e s
      | None \<Rightarrow> offer_description_set p answer s)"
| "resume env (Answer_setRemoteDescription p d) s =
     (case setRemoteDescription env of
        Some e \<Rightarrow> throw e s
      | None \<Rightarrow> answer_remote_set p d s)"
| "resume env (Ice_addIceCandidate p) s =
     (case addIceCandidate env of
        Some e \<Rightarrow> throw e s
      | None \<Rightarrow> ok s)"

definition onclose :: "state \<Rightarrow> result" where
  "onclose s =
     and_then (updateStatus ''disconnected'' (JStr ''Disconnected'')
                 (closePeerConnection (s\<lparr> connected := False, nextBtn_disabled := True \<rparr>)))
       (appendMessage ''system'' (JStr ''Socket disconnected.'') None)"

definition chat_msg :: "string \<Rightarrow> jsval" where
  "chat_msg txt = JObj [(''type'', JStr ''chat''), (''payload'', JObj [(''text'', JStr txt)])]"

definition sendTextMessage :: "state \<Rightarrow> result" where
  "sendTextMessage s =
     (let txt = trim (chatInput_value s) in
      if txt = [] \<or> \<not> connected s then ok s
      else and_then (sendWs (chat_msg txt) s)
        (\<lambda>s1. and_then (appendMessage ''you'' (JStr txt) None s1)
        (\<lambda>s2. ok (s2\<lparr> chatInput_value := [] \<rparr>))))"

definition maxSize :: nat where
  "maxSize = 8 * 1024 * 1024"

definition media_payload :: "js_file \<Rightarrow> string \<Rightarrow> (string \<times> jsval) list" where
  "media_payload f dataUrl =
     [(''fileName'', JStr (file_name f)),
      (''mimeType'', js_or (JStr (file_type f)) (JStr ''application/octet-stream'')),
      (''dataUrl'', JStr dataUrl),
      (''text'', JStr (''Shared '' @ file_name f))]"

definition media_msg :: "js_file \<Rightarrow> string \<Rightarrow> jsval" where
  "media_msg f dataUrl = JObj [(''type'', JStr ''media''), (''payload'', JObj (media_payload f dataUrl))]"

text \<open>
  \<^verbatim>\<open>fileInput.files[0]\<close> is \<^verbatim>\<open>undefined\<close> when no file is chosen; setting
  \<^verbatim>\<open>fileInput.value\<close> to the empty string empties the list of chosen files.
\<close>

definition sendFileMessage :: "env \<Rightarrow> state \<Rightarrow> result" where
  "sendFileMessage env s =
     (case fileInput_files s of
        [] \<Rightarrow> ok s
      | f # rest \<Rightarrow>
          if \<not> connected s then ok s
          else if file_size f > maxSize then
            and_then
              (appendMessage ''system'' (JStr ''File too large. Max allowed is 8MB for MVP.'') None s)
              (\<lambda>s1. ok (s1\<lparr> fileInput_files := [] \<rparr>))
          else
            (case readAsDataURL env of
               Inl e \<Rightarrow> throw e s
             | Inr dataUrl \<Rightarrow>
                 and_then (sendWs (media_msg f dataUrl) s)
                   (\<lambda>s1. and_then
                      (appendMessage ''you'' (opt_prop (JObj (media_payload f dataUrl)) ''text'')
                         (Some (opt_prop (JObj (media_payload f dataUrl)) ''mimeType'',
                                opt_prop (JObj (media_payload f dataUrl)) ''dataUrl'')) s1)
                   (\<lambda>s2. ok (s2\<lparr> fileInput_files := [] \<rparr>)))))"

text \<open>The click handler of \<^verbatim>\<open>startBtn\<close>: the \<^verbatim>\<open>catch\<close> takes whatever the \<^verbatim>\<open>try\<close> threw.\<close>

definition clickStart :: "env \<Rightarrow> state \<Rightarrow> result" where
  "clickStart env s =
     (case and_then (ensureLocalMedia env (s\<lparr> startBtn_disabled := True \<rparr>))
             (\<lambda>s1. and_then (connectWebSocket env s1)
             (\<lambda>s2. appendMessage ''system'' (JStr ''Camera and microphone enabled.'') None
                      (s2\<lparr> nextBtn_disabled := False \<rparr>))) of
        (None, s') \<Rightarrow> ok s'
      | (Some e, s') \<Rightarrow>
          and_then (updateStatus ''disconnected'' (JStr ''Permissions required'')
                      (s'\<lparr> console := console s' @ [e], startBtn_disabled := False \<rparr>))
            (appendMessage ''system'' (JStr ''Could not access camera/microphone.'') None))"

definition ws_open :: "state \<Rightarrow> bool" where
  "ws_open s = (case ws s of None \<Rightarrow> False | Some w \<Rightarrow> readyState w = OPEN)"

definition next_msg :: jsval where
  "next_msg = JObj [(''type'', JStr ''next'')]"

text \<open>The click handler of \<^verbatim>\<open>nextBtn\<close>.\<close>

definition clickNext :: "state \<Rightarrow> result" where
  "clickNext s =
     (if \<not> ws_open s then ok s
      else and_then (appendMessage ''system'' (JStr ''Searching for a new stranger...'') None s)
        (\<lambda>s1. and_then (resetForWaiting (JStr ''Waiting for a stranger...'') s1)
        (sendWs next_msg)))"

text \<open>The \<^verbatim>\<open>beforeunload\<close> handler: \<^verbatim>\<open>ws.close()\<close> leaves an open socket closing.\<close>

definition beforeunload :: "state \<Rightarrow> result" where
  "beforeunload s =
     (let s1 = (case ws s of
                  None \<Rightarrow> s
                | Some w \<Rightarrow> if readyState w = OPEN
                            then s\<lparr> ws := Some (w\<lparr> readyState := CLOSING \<rparr>) \<rparr> else s)
      in case localStream s1 of
           None \<Rightarrow> ok s1
         | Some stream \<Rightarrow> ok (s1\<lparr> stoppedTracks := stoppedTracks s1 @ stream \<rparr>))"

text \<open>
  The two handlers \<^verbatim>\<open>createPeerConnection\<close> sets on a connection, applied to
  \<^verbatim>\<open>event.candidate\<close> and to \<^verbatim>\<open>event.streams\<close>.
\<close>

definition ice_msg :: "jsval \<Rightarrow> jsval" where
  "ice_msg candidate = JObj [(''type'', JStr ''ice_candidate''), (''payload'', candidate)]"

definition onicecandidate :: "jsval \<Rightarrow> state \<Rightarrow> result" where
  "onicecandidate candidate s = (if truthy candidate then sendWs (ice_msg candidate) s else ok s)"

definition ontrack :: "media_stream list \<Rightarrow> state \<Rightarrow> result" where
  "ontrack streams s =
     (case streams of
        [] \<Rightarrow> ok s
      | stream # rest \<Rightarrow> ok (s\<lparr> remoteVideo_srcObject := Some stream \<rparr>))"

section \<open>The events of the page\<close>

text \<open>
  What can happen to the page: the user clicks, types, submits the chat form or chooses
  files; the socket opens, delivers a message, starts closing or closes; the page is about
  to unload; a peer connection reports a candidate or a track; the call that the
  \<open>k\<close>-th waiting handler awaits settles.
\<close>

datatype event =
    ClickStart
  | ClickNext
  | TypeChat string
  | SubmitChat
  | ChooseFiles "js_file list"
  | SocketOpened
  | SocketMessage "jsval option"
  | SocketClosing
  | SocketClosed
  | BeforeUnload
  | IceCandidate nat jsval
  | Track nat "media_stream list"
  | Settle nat

definition set_readyState :: "ready_state \<Rightarrow> state \<Rightarrow> state" where
  "set_readyState r s =
     (case ws s of None \<Rightarrow> s | Some w \<Rightarrow> s\<lparr> ws := Some (w\<lparr> readyState := r \<rparr>) \<rparr>)"

text \<open>
  When the browser dispatches an event: a disabled button is not clicked, a socket delivers
  messages only while open, a peer connection calls only a handler that is set, and only a
  call that is awaited settles.
\<close>

fun enabled :: "state \<Rightarrow> event \<Rightarrow> bool" where
  "enabled s ClickStart = (\<not> startBtn_disabled s)"
| "enabled s ClickNext = (\<not> nextBtn_disabled s)"
| "enabled s SocketOpened =
     (case ws s of None \<Rightarrow> False | Some w \<Rightarrow> readyState w = CONNECTING)"
| "enabled s (SocketMessage parsed) = ws_open s"
| "enabled s SocketClosing = ws_open s"
| "enabled s SocketClosed =
     (case ws s of None \<Rightarrow> False | Some w \<Rightarrow> readyState w \<noteq> CLOSED)"
| "enabled s (IceCandidate p candidate) = (p < length (pcs s) \<and> pc_onicecandidate (pcs s ! p))"
| "enabled s (Track p streams) = (p < length (pcs s) \<and> pc_ontrack (pcs s ! p))"
| "enabled s (Settle k) = (k < length (pending s))"
| "enabled s e = True"

text \<open>The \<open>k\<close>-th waiting handler leaves \<open>pending\<close> and goes on.\<close>

definition settle :: "env \<Rightarrow> nat \<Rightarrow> state \<Rightarrow> result" where
  "settle env k s =
     (if k < length (pending s)
      then resume env (pending s ! k)
             (s\<lparr> pending := take k (pending s) @ drop (Suc k) (pending s) \<rparr>)
      else ok s)"

fun fire :: "env \<Rightarrow> event \<Rightarrow> state \<Rightarrow> result" where
  "fire env ClickStart s = clickStart env s"
| "fire env ClickNext s = clickNext s"
| "fire env (TypeChat txt) s = ok (s\<lparr> chatInput_value := txt \<rparr>)"
| "fire env SubmitChat s = sendTextMessage s"
| "fire env (ChooseFiles fs) s = sendFileMessage env (s\<lparr> fileInput_files := fs \<rparr>)"
| "fire env SocketOpened s = onopen (set_readyState OPEN s)"
| "fire env (SocketMessage parsed) s = onmessage env parsed s"
| "fire env SocketClosing s = ok (set_readyState CLOSING s)"
| "fire env SocketClosed s = onclose (set_readyState CLOSED s)"
| "fire env BeforeUnload s = beforeunload s"
| "fire env (IceCandidate p candidate) s = onicecandidate candidate s"
| "fire env (Track p streams) s = ontrack streams s"
| "fire env (Settle k) s = settle env k s"

text \<open>
  The page as the script finds it when it is loaded: its four variables at their initial
  values, no connection made, no handler waiting, nothing sent, the Start button enabled.
\<close>

definition initial :: "state \<Rightarrow> bool" where
  "initial s =
     (ws s = None \<and> peerConnection s = None \<and> localStream s = None \<and> \<not> connected s \<and>
      pcs s = [] \<and> pending s = [] \<and> sentFrames s = [] \<and> \<not> startBtn_disabled s)"

inductive reachable :: "state \<Rightarrow> bool" where
  start: "initial s \<Longrightarrow> reachable s"
| step: "reachable s \<Longrightarrow> enabled s e \<Longrightarrow> reachable (snd (fire env e s))"

text \<open>A sequence of events, each with the browser's answers, run from a state.\<close>

fun run :: "(env \<times> event) list \<Rightarrow> state \<Rightarrow> state" where
  "run [] s = s"
| "run ((env, e) # es) s = run es (snd (fire env e s))"

fun trace_enabled :: "(env \<times> event) list \<Rightarrow> state \<Rightarrow> bool" where
  "trace_enabled [] s = True"
| "trace_enabled ((env, e) # es) s = (enabled s e \<and> trace_enabled es (snd (fire env e s)))"

text \<open>
  The status dot shows \<open>st\<close> when its class list has \<open>st\<close> and neither of the other two
  classes \<^verbatim>\<open>updateStatus\<close> switches between.
\<close>

definition shows_status :: "string \<Rightarrow> string list \<Rightarrow> bool" where
  "shows_status st l =
     (st \<in> set l \<and>
      (\<forall>c \<in> set [''waiting'', ''connected'', ''disconnected'']. c \<noteq> st \<longrightarrow> c \<notin> set l))"

text \<open>
  What holds of every page a run can reach. A socket is made only after the local stream
  was acquired, the Start button stays disabled once there is a socket, and before there
  is a socket nothing else has happened. \<open>peerConnection\<close>
  and the waiting handlers point into the store. A connected page has a socket that has
  been open.
\<close>

definition page_inv :: "state \<Rightarrow> bool" where
  "page_inv s =
     ((ws s = None \<or> localStream s \<noteq> None) \<and>
      (ws s = None \<or> startBtn_disabled s) \<and>
      (ws s = None \<longrightarrow> peerConnection s = None \<and> \<not> connected s \<and> pending s = []) \<and>
      (\<forall>p. peerConnection s = Some p \<longrightarrow> p < length (pcs s)) \<and>
      (\<forall>t \<in> set (pending s). task_pc t < length (pcs s)) \<and>
      (connected s \<longrightarrow> (\<exists>w. ws s = Some w \<and> readyState w \<noteq> CONNECTING)))"

section \<open>Concrete pages\<close>

text \<open>
  A browser in which every call succeeds, browsers in which one call fails, and pages at
  three moments: just loaded, waiting for a partner on an open socket, and matched with a
  live peer connection.
\<close>

definition demo_offer :: jsval where
  "demo_offer = JObj [(''type'', JStr ''offer''), (''sdp'', JStr ''v=0'')]"

definition demo_answer :: jsval where
  "demo_answer = JObj [(''type'', JStr ''answer''), (''sdp'', JStr ''v=0'')]"

definition env_ok :: env where
  "env_ok = \<lparr> getUserMedia = Inr [0, 1], newWebSocket = None, newRTCPeerConnection = None,
     createOffer = Inr demo_offer, createAnswer = Inr demo_answer, setLocalDescription = None,
     newRTCSessionDescription = None, setRemoteDescription = None, newRTCIceCandidate = None,
     addIceCandidate = None, readAsDataURL = Inr ''data:image/png;base64,AAAA'' \<rparr>"

definition env_denied :: env where
  "env_denied = env_ok\<lparr> getUserMedia := Inl (DOMException ''NotAllowedError'') \<rparr>"


definition env_bad_description :: env where
  "env_bad_description =
     env_ok\<lparr> setRemoteDescription := Some (DOMException ''InvalidAccessError'') \<rparr>"

definition fresh_page :: state where
  "fresh_page = \<lparr> ws = None, peerConnection = None, localStream = None, connected = False,
     pcs = [], pending = [], sentFrames = [], console = [], stoppedTracks = [],
     location_protocol = ''https:'', location_host = ''example.org'',
     startBtn_disabled = False, nextBtn_disabled = True,
     statusText = ''Idle'', statusDot = [''dot''],
     localVideo_srcObject = None, remoteVideo_srcObject = None,
     chatMessages = [], chatInput_value = [], fileInput_files = [] \<rparr>"

definition waiting_page :: state where
  "waiting_page = \<lparr> ws = Some \<lparr> ws_url = ''wss://example.org/ws'', readyState = OPEN \<rparr>,
     peerConnection = None, localStream = Some [0, 1], connected = False, pcs = [],
     pending = [], sentFrames = [], console = [], stoppedTracks = [],
     location_protocol = ''https:'', location_host = ''example.org'',
     startBtn_disabled = True, nextBtn_disabled = False,
     statusText = ''Waiting for a stranger...'', statusDot = [''dot'', ''waiting''],
     localVideo_srcObject = Some [0, 1], remoteVideo_srcObject = None, chatMessages = [],
     chatInput_value = [], fileInput_files = [] \<rparr>"

definition matched_page :: state where
  "matched_page = \<lparr> ws = Some \<lparr> ws_url = ''wss://example.org/ws'', readyState = OPEN \<rparr>,
     peerConnection = Some 0, localStream = Some [0, 1], connected = True,
     pcs = [\<lparr> pc_closed = False, pc_onicecandidate = True, pc_ontrack = True,
             pc_senders = [(0, [0, 1]), (1, [0, 1])], pc_localDescription = Some demo_offer,
             pc_remoteDescription = None \<rparr>],
     pending = [], sentFrames = [offer_msg demo_offer], console = [], stoppedTracks = [],
     location_protocol = ''https:'', location_host = ''example.org'',
     startBtn_disabled = True, nextBtn_disabled = False,
     statusText = ''Connected'', statusDot = [''dot'', ''connected''],
     localVideo_srcObject = Some [0, 1], remoteVideo_srcObject = Some [2, 3],
     chatMessages = [], chatInput_value = ''  hi '', fileInput_files = [] \<rparr>"

text \<open>
  From the loaded page: Start is clicked, the socket opens, a partner is matched, the page
  begins to unload (which calls \<^verbatim>\<open>ws.close()\<close>) and the user types into the chat input.
\<close>

definition closing_trace :: "(env \<times> event) list" where
  "closing_trace =
     [(env_ok, ClickStart), (env_ok, SocketOpened),
      (env_ok, SocketMessage
         (Some (JObj [(''type'', JStr ''matched''), (''isInitiator'', JBool False)]))),
      (env_ok, BeforeUnload), (env_ok, TypeChat ''hi'')]"

definition png_file :: js_file where
  "png_file = \<lparr> file_name = ''cat.png'', file_type = ''image/png'', file_size = 2048 \<rparr>"

definition plain_file :: js_file where
  "plain_file = \<lparr> file_name = ''notes'', file_type = [], file_size = 10 \<rparr>"

definition big_file :: js_file where
  "big_file = \<lparr> file_name = ''film.mp4'', file_type = ''video/mp4'', file_size = 9000000 \<rparr>"

section \<open>Facts about the functions\<close>

lemmas res_defs = ok_def throw_def and_then_def

lemma and_then_alt:
  "and_then r f = (case fst r of None \<Rightarrow> f (snd r) | Some e \<Rightarrow> (Some e, snd r))"
  by (cases r) (simp add: and_then_def split: option.splits)

lemma sendWs_eq:
  "sendWs d s = (None, if ws_open s then s\<lparr> sentFrames := sentFrames s @ [d] \<rparr> else s)"
  by (simp add: sendWs_def socket_send_def ws_open_def res_defs
      split: option.splits ready_state.splits)

lemma to_string_or_empty [simp]: "to_string (js_or (JStr str) (JStr [])) = Inr str"
  by (simp add: js_or_def)

lemma appendMessage_str:
  "appendMessage kind (JStr str) None s =
     (None, s\<lparr> chatMessages := chatMessages s @
        [\<lparr> msg_class = ''msg '' @ kind,
           msg_label = (if kind = ''you'' then ''You''
                        else if kind = ''stranger'' then ''Stranger'' else ''System'') @ '': '',
           msg_text = str, msg_media = [] \<rparr>] \<rparr>)"
  by (simp add: appendMessage_def res_defs Let_def)


lemma updateStatus_str:
  "updateStatus st (JStr str) s =
     (None, s\<lparr> statusText := str,
               statusDot := classList_add st
                 (classList_remove [''waiting'', ''connected'', ''disconnected''] (statusDot s)) \<rparr>)"
  by (simp add: updateStatus_def to_textContent_def res_defs)

lemma updateStatus_eq:
  "updateStatus st v s =
     (case to_textContent v of
        Inl e \<Rightarrow> (Some e, s)
      | Inr str \<Rightarrow>
          (None, s\<lparr> statusText := str,
               statusDot := classList_add st
                 (classList_remove [''waiting'', ''connected'', ''disconnected''] (statusDot s)) \<rparr>))"
  by (simp add: updateStatus_def res_defs split: sum.splits)

lemma js_or_truthy: "truthy d \<Longrightarrow> truthy (js_or a d)"
  by (simp add: js_or_def)


lemma truthy_not_nullish: "truthy v \<Longrightarrow> v \<noteq> JUndefined \<and> v \<noteq> JNull"
  by (cases v) simp_all

lemma to_textContent_truthy: "truthy v \<Longrightarrow> to_textContent v = to_string v"
  using truthy_not_nullish [of v] by (simp add: to_textContent_def)

lemma ws_open_simps [simp]:
  "ws_open (s\<lparr> connected := c \<rparr>) = ws_open s"
  "ws_open (s\<lparr> nextBtn_disabled := b \<rparr>) = ws_open s"
  "ws_open (s\<lparr> startBtn_disabled := b \<rparr>) = ws_open s"
  "ws_open (s\<lparr> chatMessages := ms \<rparr>) = ws_open s"
  "ws_open (s\<lparr> sentFrames := fs \<rparr>) = ws_open s"
  "ws_open (s\<lparr> pcs := ps \<rparr>) = ws_open s"
  "ws_open (s\<lparr> pending := ts \<rparr>) = ws_open s"
  "ws_open (s\<lparr> peerConnection := pc \<rparr>) = ws_open s"
  "ws_open (s\<lparr> remoteVideo_srcObject := v \<rparr>) = ws_open s"
  "ws_open (s\<lparr> localVideo_srcObject := v \<rparr>) = ws_open s"
  "ws_open (s\<lparr> localStream := ls \<rparr>) = ws_open s"
  "ws_open (s\<lparr> statusText := t \<rparr>) = ws_open s"
  "ws_open (s\<lparr> statusDot := l \<rparr>) = ws_open s"
  "ws_open (s\<lparr> fileInput_files := fl \<rparr>) = ws_open s"
  "ws_open (s\<lparr> chatInput_value := cv \<rparr>) = ws_open s"
  "ws_open (s\<lparr> console := co \<rparr>) = ws_open s"
  "ws_open (s\<lparr> stoppedTracks := tr \<rparr>) = ws_open s"
  by (simp_all add: ws_open_def)

lemma ws_open_closePeerConnection [simp]: "ws_open (closePeerConnection s) = ws_open s"
  by (simp add: closePeerConnection_def split: option.splits)

lemma closePeerConnection_fields [simp]:
  "peerConnection (closePeerConnection s) = None"
  "remoteVideo_srcObject (closePeerConnection s) = None"
  "length (pcs (closePeerConnection s)) = length (pcs s)"
  "sentFrames (closePeerConnection s) = sentFrames s"
  "pending (closePeerConnection s) = pending s"
  "connected (closePeerConnection s) = connected s"
  "ws (closePeerConnection s) = ws s"
  "localStream (closePeerConnection s) = localStream s"
  "chatMessages (closePeerConnection s) = chatMessages s"
  "statusDot (closePeerConnection s) = statusDot s"
  "statusText (closePeerConnection s) = statusText s"
  "console (closePeerConnection s) = console s"
  "startBtn_disabled (closePeerConnection s) = startBtn_disabled s"
  "nextBtn_disabled (closePeerConnection s) = nextBtn_disabled s"
  "fileInput_files (closePeerConnection s) = fileInput_files s"
  "chatInput_value (closePeerConnection s) = chatInput_value s"
  by (simp_all add: closePeerConnection_def split: option.splits)

lemma closePeerConnection_closes:
  "peerConnection s = Some p \<Longrightarrow> p < length (pcs s) \<Longrightarrow>
     pc_closed (pcs (closePeerConnection s) ! p) \<and>
     \<not> pc_onicecandidate (pcs (closePeerConnection s) ! p) \<and>
     \<not> pc_ontrack (pcs (closePeerConnection s) ! p)"
  by (simp add: closePeerConnection_def)

lemma classList_shows:
  "st \<in> set [''waiting'', ''connected'', ''disconnected''] \<Longrightarrow>
     shows_status st
       (classList_add st (classList_remove [''waiting'', ''connected'', ''disconnected''] l))"
  by (auto simp add: shows_status_def classList_add_def classList_remove_def)

lemma snoc_update: "length xs = n \<Longrightarrow> (xs @ [x])[n := y] = xs @ [y]"
  by auto

lemma snoc_nth: "length xs = n \<Longrightarrow> (xs @ [x]) ! n = x"
  by auto

lemma createPeerConnection_ok:
  assumes "newRTCPeerConnection env = None" and "localStream s = Some stream"
  shows "createPeerConnection env s =
     (None, (closePeerConnection s)
        \<lparr> pcs := pcs (closePeerConnection s) @
             [new_peer_conn\<lparr> pc_senders := map (\<lambda>track. (track, stream)) stream,
                             pc_onicecandidate := True, pc_ontrack := True \<rparr>],
          peerConnection := Some (length (pcs s)) \<rparr>)"
  using assms by (simp add: createPeerConnection_def Let_def res_defs snoc_update snoc_nth)

text \<open>\<^verbatim>\<open>resetForWaiting\<close> with a string, as the Next button and a lost partner call it.\<close>

lemma resetForWaiting_str:
  "resetForWaiting (JStr str) s =
     (None, (closePeerConnection (s\<lparr> connected := False \<rparr>))
        \<lparr> statusText := str,
          statusDot := classList_add ''waiting''
            (classList_remove [''waiting'', ''connected'', ''disconnected''] (statusDot s)) \<rparr>)"
  by (simp add: resetForWaiting_def Let_def updateStatus_str)

lemma resetForWaiting_eq:
  "truthy v \<Longrightarrow>
   resetForWaiting v s =
     (case to_string v of
        Inl e \<Rightarrow> (Some e, closePeerConnection (s\<lparr> connected := False \<rparr>))
      | Inr str \<Rightarrow>
          (None, (closePeerConnection (s\<lparr> connected := False \<rparr>))
             \<lparr> statusText := str,
               statusDot := classList_add ''waiting''
                 (classList_remove [''waiting'', ''connected'', ''disconnected''] (statusDot s)) \<rparr>))"
  using truthy_not_nullish [of v]
  by (simp add: resetForWaiting_def Let_def updateStatus_eq to_textContent_truthy split: sum.splits)

lemma idle_updates:
  "\<not> connected s \<Longrightarrow> remoteVideo_srcObject s = None \<Longrightarrow>
     s\<lparr> connected := False, remoteVideo_srcObject := None \<rparr> = s"
  by (cases s) simp

lemma idle_closePeerConnection:
  "\<not> connected s \<Longrightarrow> peerConnection s = None \<Longrightarrow> remoteVideo_srcObject s = None \<Longrightarrow>
     closePeerConnection (s\<lparr> connected := False \<rparr>) = s"
  by (simp add: closePeerConnection_def idle_updates)

lemma same_status: "s\<lparr> statusText := statusText s, statusDot := statusDot s \<rparr> = s"
  by (cases s) simp

lemma handleMatched_eq:
  "handleMatched env b s =
     and_then (createPeerConnection env
        (s\<lparr> connected := True, nextBtn_disabled := False, statusText := ''Connected'',
            statusDot := classList_add ''connected''
              (classList_remove [''waiting'', ''connected'', ''disconnected''] (statusDot s)),
            chatMessages := chatMessages s @
              [\<lparr> msg_class = ''msg system'', msg_label = ''System: '',
                 msg_text = ''You are now connected to a stranger.'', msg_media = [] \<rparr>] \<rparr>))
       (\<lambda>s2. if b then await_pc Matched_createOffer s2 else ok s2)"
  by (simp add: handleMatched_def updateStatus_str appendMessage_str res_defs)

subsection \<open>What each handler sends\<close>

lemma sent_appendMessage [simp]: "sentFrames (snd (appendMessage k t m s)) = sentFrames s"
  by (simp add: appendMessage_def res_defs Let_def
      split: option.splits jsval.splits prod.splits sum.splits)

lemma ws_open_appendMessage [simp]: "ws_open (snd (appendMessage k t m s)) = ws_open s"
  by (simp add: appendMessage_def res_defs Let_def
      split: option.splits jsval.splits prod.splits sum.splits)

lemma sent_updateStatus [simp]: "sentFrames (snd (updateStatus st v s)) = sentFrames s"
  by (simp add: updateStatus_eq split: sum.splits)

lemma ws_open_updateStatus [simp]: "ws_open (snd (updateStatus st v s)) = ws_open s"
  by (simp add: updateStatus_eq split: sum.splits)

lemma sent_resetForWaiting [simp]: "sentFrames (snd (resetForWaiting v s)) = sentFrames s"
  by (simp add: resetForWaiting_def Let_def)

lemma ws_open_resetForWaiting [simp]: "ws_open (snd (resetForWaiting v s)) = ws_open s"
  by (simp add: resetForWaiting_def Let_def)

lemma sent_createPeerConnection [simp]:
  "sentFrames (snd (createPeerConnection env s)) = sentFrames s"
  by (simp add: createPeerConnection_def Let_def res_defs split: option.splits)

lemma ws_open_createPeerConnection [simp]:
  "ws_open (snd (createPeerConnection env s)) = ws_open s"
  by (simp add: createPeerConnection_def Let_def res_defs split: option.splits)

lemma sent_await_pc [simp]: "sentFrames (snd (await_pc waiting s)) = sentFrames s"
  by (simp add: await_pc_def res_defs split: option.splits)

lemma sent_await_setRemoteDescription [simp]:
  "sentFrames (snd (await_setRemoteDescription env waiting s)) = sentFrames s"
  by (simp add: await_setRemoteDescription_def res_defs split: option.splits)

lemma sent_await_addIceCandidate [simp]:
  "sentFrames (snd (await_addIceCandidate env s)) = sentFrames s"
  by (simp add: await_addIceCandidate_def res_defs split: option.splits)

lemma sent_set_readyState [simp]: "sentFrames (set_readyState r s) = sentFrames s"
  by (simp add: set_readyState_def split: option.splits)

lemma sent_and_then:
  "sentFrames (snd r) = fs \<Longrightarrow> (\<And>s'. sentFrames s' = fs \<Longrightarrow> sentFrames (snd (f s')) = fs) \<Longrightarrow>
     sentFrames (snd (and_then r f)) = fs"
  by (cases r) (auto simp add: and_then_def split: option.splits)

lemma pending_createPeerConnection [simp]:
  "pending (snd (createPeerConnection env s)) = pending s"
  by (simp add: createPeerConnection_def Let_def res_defs split: option.splits)


lemma handleMatched_sends: "sentFrames (snd (handleMatched env b s)) = sentFrames s"
  unfolding handleMatched_def
  by (intro sent_and_then) (simp_all add: ok_def)

lemma onmessage_sends: "sentFrames (snd (onmessage env parsed s)) = sentFrames s"
proof (cases parsed)
  case None
  then show ?thesis by (simp add: onmessage_def throw_def)
next
  case (Some data)
  show ?thesis
  proof (cases "get_prop data ''type''")
    case (Inl e)
    with Some show ?thesis by (simp add: onmessage_def throw_def)
  next
    case (Inr ty)
    have offer: "sentFrames (snd (and_then
        (if peerConnection s = None then createPeerConnection env s else ok s)
        (await_setRemoteDescription env
           (\<lambda>p. Offer_setRemoteDescription p (opt_prop data ''payload''))))) = sentFrames s"
      by (rule sent_and_then) (simp_all add: ok_def)
    have lost: "sentFrames (snd (and_then
        (appendMessage ''system''
           (js_or (opt_prop data ''message'') (JStr ''Stranger disconnected.'')) None s)
        (resetForWaiting (JStr ''Waiting for a stranger...'')))) = sentFrames s"
      by (rule sent_and_then) simp_all
    from Some Inr offer lost show ?thesis
      by (simp add: onmessage_def handleMatched_sends ok_def)
  qed
qed

lemma settle_sends:
  "sentFrames (snd (settle env k s)) = sentFrames s \<or>
   (ws_open s \<and>
     ((\<exists>x. sentFrames (snd (settle env k s)) = sentFrames s @ [offer_msg x]) \<or>
      (\<exists>x. sentFrames (snd (settle env k s)) = sentFrames s @ [answer_msg x])))"
proof (cases "k < length (pending s)")
  case False
  then show ?thesis by (simp add: settle_def ok_def)
next
  case True
  then show ?thesis
    by (cases "pending s ! k")
       (auto simp add: settle_def handleMatched_offer_created_def
          handleMatched_description_set_def offer_remote_set_def offer_answer_created_def
          offer_description_set_def answer_remote_set_def sendWs_eq ok_def throw_def
          split: sum.splits option.splits)
qed

lemma clickStart_sends: "sentFrames (snd (clickStart env s)) = sentFrames s"
  by (simp add: clickStart_def ensureLocalMedia_def connectWebSocket_def and_then_alt
      appendMessage_str updateStatus_str ok_def throw_def Let_def
      split: option.splits sum.splits prod.splits)

lemma clickNext_sends:
  "sentFrames (snd (clickNext s)) = sentFrames s @ (if ws_open s then [next_msg] else [])"
  by (simp add: clickNext_def appendMessage_str sendWs_eq resetForWaiting_str res_defs)

lemma sendTextMessage_sends:
  "sentFrames (snd (sendTextMessage s)) = sentFrames s @
     (if trim (chatInput_value s) \<noteq> [] \<and> connected s \<and> ws_open s
      then [chat_msg (trim (chatInput_value s))] else [])"
  by (simp add: sendTextMessage_def Let_def sendWs_eq appendMessage_str res_defs)

lemma sendFileMessage_sends:
  "sentFrames (snd (sendFileMessage env s)) = sentFrames s @
     (case fileInput_files s of
        [] \<Rightarrow> []
      | f # rest \<Rightarrow>
          (case readAsDataURL env of
             Inl e \<Rightarrow> []
           | Inr dataUrl \<Rightarrow>
               if connected s \<and> file_size f \<le> maxSize \<and> ws_open s
               then [JObj [(''type'', JStr ''media''),
                   (''payload'', JObj
                     [(''fileName'', JStr (file_name f)),
                      (''mimeType'', JStr (if file_type f = [] then ''application/octet-stream''
                                           else file_type f)),
                      (''dataUrl'', JStr dataUrl),
                      (''text'', JStr (''Shared '' @ file_name f))])]]
               else []))"
  by (simp add: sendFileMessage_def sendWs_eq and_then_alt ok_def throw_def media_msg_def
      media_payload_def js_or_def Let_def split: list.splits sum.splits option.splits)

lemma onopen_sends: "sentFrames (snd (onopen s)) = sentFrames s"
  by (simp add: onopen_def appendMessage_str updateStatus_str res_defs)

lemma onclose_sends: "sentFrames (snd (onclose s)) = sentFrames s"
  by (simp add: onclose_def appendMessage_str updateStatus_str res_defs)

lemma beforeunload_sends: "sentFrames (snd (beforeunload s)) = sentFrames s"
  by (simp add: beforeunload_def Let_def ok_def split: option.splits)

lemma onicecandidate_sends:
  "sentFrames (snd (onicecandidate c s)) = sentFrames s @
     (if truthy c \<and> ws_open s then [ice_msg c] else [])"
  by (simp add: onicecandidate_def sendWs_eq ok_def)

lemma ontrack_sends: "sentFrames (snd (ontrack streams s)) = sentFrames s"
  by (simp add: ontrack_def ok_def split: list.splits)

text \<open>
  What an event appends to the frames sent: nothing unless the socket is open, and then at
  most one frame, of one of six shapes.
\<close>

lemma fire_sends:
  "\<exists>new. sentFrames (snd (fire env e s)) = sentFrames s @ new \<and>
     (new = [] \<or>
      (ws_open s \<and>
        ((\<exists>x. new = [offer_msg x]) \<or> (\<exists>x. new = [answer_msg x]) \<or>
         (\<exists>x. new = [ice_msg x]) \<or> new = [next_msg] \<or> (\<exists>t. new = [chat_msg t]) \<or>
         (\<exists>f rest u. e = ChooseFiles (f # rest) \<and> readAsDataURL env = Inr u \<and>
            new = [JObj [(''type'', JStr ''media''),
               (''payload'', JObj
                 [(''fileName'', JStr (file_name f)),
                  (''mimeType'', JStr (if file_type f = [] then ''application/octet-stream''
                                       else file_type f)),
                  (''dataUrl'', JStr u),
                  (''text'', JStr (''Shared '' @ file_name f))])]]))))"
proof (cases e)
  case ClickStart
  then show ?thesis by (simp add: clickStart_sends)
next
  case ClickNext
  then show ?thesis by (simp add: clickNext_sends)
next
  case (TypeChat str)
  then show ?thesis by (simp add: ok_def)
next
  case SubmitChat
  then show ?thesis by (auto simp add: sendTextMessage_sends)
next
  case (ChooseFiles fs)
  then show ?thesis
    by (auto simp add: sendFileMessage_sends split: list.splits sum.splits)
next
  case SocketOpened
  then show ?thesis by (simp add: onopen_sends)
next
  case (SocketMessage parsed)
  then show ?thesis by (simp add: onmessage_sends)
next
  case SocketClosing
  then show ?thesis by (simp add: ok_def)
next
  case SocketClosed
  then show ?thesis by (simp add: onclose_sends)
next
  case BeforeUnload
  then show ?thesis by (simp add: beforeunload_sends)
next
  case (IceCandidate p c)
  then show ?thesis by (auto simp add: onicecandidate_sends)
next
  case (Track p streams)
  then show ?thesis by (simp add: ontrack_sends)
next
  case (Settle k)
  with settle_sends [of env k s] show ?thesis by auto
qed

subsection \<open>Runs from the loaded page\<close>

lemmas run_defs = clickStart_def ensureLocalMedia_def connectWebSocket_def appendMessage_str
  onopen_def set_readyState_def updateStatus_str onmessage_def handleMatched_def
  createPeerConnection_def closePeerConnection_def beforeunload_def await_pc_def
  await_setRemoteDescription_def settle_def handleMatched_offer_created_def
  handleMatched_description_set_def offer_remote_set_def offer_answer_created_def
  offer_description_set_def resetForWaiting_str sendWs_eq
  classList_add_def classList_remove_def new_peer_conn_def opt_prop_def js_or_def ws_open_def
  res_defs Let_def

lemma reachable_run: "reachable s \<Longrightarrow> trace_enabled tr s \<Longrightarrow> reachable (run tr s)"
proof (induction tr arbitrary: s)
  case Nil
  then show ?case by simp
next
  case (Cons a tr)
  obtain env e where a: "a = (env, e)" by (cases a)
  with Cons.prems have "reachable (snd (fire env e s))" "trace_enabled tr (snd (fire env e s))"
    by (auto intro: reachable.step)
  with Cons.IH a show ?case by simp
qed

lemma closing_page_eq:
  "run closing_trace fresh_page =
    \<lparr> ws = Some \<lparr> ws_url = ''wss://example.org/ws'', readyState = CLOSING \<rparr>,
     peerConnection = Some 0, localStream = Some [0, 1], connected = True,
     pcs = [\<lparr> pc_closed = False, pc_onicecandidate = True, pc_ontrack = True,
             pc_senders = [(0, [0, 1]), (1, [0, 1])], pc_localDescription = None,
             pc_remoteDescription = None \<rparr>],
     pending = [], sentFrames = [], console = [], stoppedTracks = [0, 1],
     location_protocol = ''https:'', location_host = ''example.org'',
     startBtn_disabled = True, nextBtn_disabled = False,
     statusText = ''Connected'', statusDot = [''dot'', ''connected''],
     localVideo_srcObject = Some [0, 1], remoteVideo_srcObject = None,
     chatMessages =
       [\<lparr> msg_class = ''msg system'', msg_label = ''System: '',
          msg_text = ''Camera and microphone enabled.'', msg_media = [] \<rparr>,
        \<lparr> msg_class = ''msg system'', msg_label = ''System: '',
          msg_text = ''Socket connected. Matchmaking started.'', msg_media = [] \<rparr>,
        \<lparr> msg_class = ''msg system'', msg_label = ''System: '',
          msg_text = ''You are now connected to a stranger.'', msg_media = [] \<rparr>],
     chatInput_value = ''hi'', fileInput_files = [] \<rparr>"
  by (simp add: closing_trace_def fresh_page_def env_ok_def run_defs)

lemma closing_trace_enabled: "trace_enabled closing_trace fresh_page"
  by (simp add: closing_trace_def fresh_page_def env_ok_def run_defs)

lemma closing_page_reachable: "reachable (run closing_trace fresh_page)"
  by (rule reachable_run [OF reachable.start closing_trace_enabled])
     (simp add: initial_def fresh_page_def)

subsection \<open>An invariant of the reachable pages\<close>

lemma inv_field_updates [simp]:
  "page_inv (s\<lparr> nextBtn_disabled := b \<rparr>) = page_inv s"
  "page_inv (s\<lparr> chatInput_value := v \<rparr>) = page_inv s"
  "page_inv (s\<lparr> fileInput_files := fl \<rparr>) = page_inv s"
  "page_inv (s\<lparr> remoteVideo_srcObject := rv \<rparr>) = page_inv s"
  "page_inv (s\<lparr> localVideo_srcObject := lv \<rparr>) = page_inv s"
  "page_inv (s\<lparr> stoppedTracks := tr \<rparr>) = page_inv s"
  "page_inv (s\<lparr> console := co \<rparr>) = page_inv s"
  "page_inv (s\<lparr> sentFrames := fr \<rparr>) = page_inv s"
  "page_inv (s\<lparr> chatMessages := cm \<rparr>) = page_inv s"
  "page_inv (s\<lparr> statusText := st \<rparr>) = page_inv s"
  "page_inv (s\<lparr> statusDot := sd \<rparr>) = page_inv s"
  by (simp_all add: page_inv_def)

lemma inv_appendMessage [simp]: "page_inv (snd (appendMessage k t m s)) = page_inv s"
  by (simp add: appendMessage_def res_defs Let_def
      split: option.splits jsval.splits prod.splits sum.splits)

lemma inv_updateStatus [simp]: "page_inv (snd (updateStatus st v s)) = page_inv s"
  by (simp add: updateStatus_eq split: sum.splits)

lemma inv_sendWs [simp]: "page_inv (snd (sendWs d s)) = page_inv s"
  by (simp add: sendWs_eq)

lemma inv_and_then:
  "page_inv (snd r) \<Longrightarrow> (\<And>s'. page_inv s' \<Longrightarrow> page_inv (snd (f s'))) \<Longrightarrow>
     page_inv (snd (and_then r f))"
  by (cases r) (auto simp add: and_then_def split: option.splits)

lemma inv_disconnect: "page_inv s \<Longrightarrow> page_inv (s\<lparr> connected := False \<rparr>)"
  by (simp add: page_inv_def)

lemma inv_closePeerConnection: "page_inv s \<Longrightarrow> page_inv (closePeerConnection s)"
  by (simp add: page_inv_def)

lemma inv_resetForWaiting: "page_inv s \<Longrightarrow> page_inv (snd (resetForWaiting a s))"
  by (simp add: resetForWaiting_def Let_def inv_closePeerConnection inv_disconnect)

lemma inv_createPeerConnection:
  "page_inv s \<Longrightarrow> ws s \<noteq> None \<Longrightarrow> page_inv (snd (createPeerConnection env s))"
  by (auto simp add: page_inv_def createPeerConnection_def Let_def res_defs
      split: option.splits)

lemma ws_createPeerConnection [simp]: "ws (snd (createPeerConnection env s)) = ws s"
  by (simp add: createPeerConnection_def Let_def res_defs split: option.splits)

lemma ws_appendMessage [simp]: "ws (snd (appendMessage k t m s)) = ws s"
  by (simp add: appendMessage_def res_defs Let_def
      split: option.splits jsval.splits prod.splits sum.splits)

lemma ws_updateStatus [simp]: "ws (snd (updateStatus st v s)) = ws s"
  by (simp add: updateStatus_eq split: sum.splits)

lemma inv_await_pc: "page_inv s \<Longrightarrow> page_inv (snd (await_pc waiting s))"
  if "\<And>p. task_pc (waiting p) = p"
  using that by (auto simp add: page_inv_def await_pc_def res_defs split: option.splits)

lemma inv_await_setRemoteDescription:
  "page_inv s \<Longrightarrow> page_inv (snd (await_setRemoteDescription env waiting s))"
  if "\<And>p. task_pc (waiting p) = p"
  using that
  by (auto simp add: page_inv_def await_setRemoteDescription_def res_defs split: option.splits)

lemma inv_await_addIceCandidate:
  "page_inv s \<Longrightarrow> page_inv (snd (await_addIceCandidate env s))"
  by (auto simp add: page_inv_def await_addIceCandidate_def res_defs split: option.splits)

lemma inv_connect: "page_inv s \<Longrightarrow> ws_open s \<Longrightarrow> page_inv (s\<lparr> connected := True \<rparr>)"
  by (auto simp add: page_inv_def ws_open_def split: option.splits)

lemma ws_open_ws: "ws_open s \<Longrightarrow> ws s \<noteq> None"
  by (cases "ws s") (simp_all add: ws_open_def)

lemma inv_handleMatched:
  assumes "page_inv s" and "ws_open s"
  shows "page_inv (snd (handleMatched env b s))"
  unfolding handleMatched_eq
proof (rule inv_and_then)
  from assms show "page_inv (snd (createPeerConnection env
        (s\<lparr> connected := True, nextBtn_disabled := False, statusText := ''Connected'',
            statusDot := classList_add ''connected''
              (classList_remove [''waiting'', ''connected'', ''disconnected''] (statusDot s)),
            chatMessages := chatMessages s @
              [\<lparr> msg_class = ''msg system'', msg_label = ''System: '',
                 msg_text = ''You are now connected to a stranger.'', msg_media = [] \<rparr>] \<rparr>)))"
    by (intro inv_createPeerConnection) (simp_all add: inv_connect ws_open_ws)
next
  fix s' assume "page_inv s'"
  then show "page_inv (snd (if b then await_pc Matched_createOffer s' else ok s'))"
    by (simp add: inv_await_pc ok_def)
qed

lemma inv_onmessage:
  assumes s: "page_inv s" and o: "ws_open s"
  shows "page_inv (snd (onmessage env parsed s))"
proof (cases parsed)
  case None
  with s show ?thesis by (simp add: onmessage_def throw_def)
next
  case (Some data)
  show ?thesis
  proof (cases "get_prop data ''type''")
    case (Inl e)
    with Some s show ?thesis by (simp add: onmessage_def throw_def)
  next
    case (Inr ty)
    have offer: "page_inv (snd (and_then
        (if peerConnection s = None then createPeerConnection env s else ok s)
        (await_setRemoteDescription env
           (\<lambda>p. Offer_setRemoteDescription p (opt_prop data ''payload'')))))"
      using s o
      by (intro inv_and_then inv_await_setRemoteDescription)
         (simp_all add: inv_createPeerConnection ws_open_ws ok_def)
    have lost: "page_inv (snd (and_then
        (appendMessage ''system''
           (js_or (opt_prop data ''message'') (JStr ''Stranger disconnected.'')) None s)
        (resetForWaiting (JStr ''Waiting for a stranger...''))))"
      using s by (intro inv_and_then inv_resetForWaiting) simp_all
    from Some Inr s o offer lost show ?thesis
      by (simp add: onmessage_def ok_def inv_handleMatched inv_resetForWaiting
          inv_await_setRemoteDescription inv_await_addIceCandidate)
  qed
qed

lemma set_take_drop: "set (take k xs @ drop (Suc k) xs) \<subseteq> set xs"
  by (auto dest: in_set_takeD in_set_dropD)

lemma inv_take_task:
  "page_inv s \<Longrightarrow> page_inv (s\<lparr> pending := take k (pending s) @ drop (Suc k) (pending s) \<rparr>)"
  using set_take_drop [of k "pending s"] by (auto simp add: page_inv_def)

lemma inv_pcs_update:
  "page_inv s \<Longrightarrow> page_inv (s\<lparr> pcs := (pcs s)[p := x] \<rparr>)"
  by (simp add: page_inv_def)

lemma inv_resume: "page_inv s \<Longrightarrow> page_inv (snd (resume env t s))"
  by (cases t)
     (simp_all add: handleMatched_offer_created_def handleMatched_description_set_def
        offer_remote_set_def offer_answer_created_def offer_description_set_def
        answer_remote_set_def inv_await_pc inv_pcs_update ok_def throw_def
        split: sum.splits option.splits)

lemma inv_settle: "page_inv s \<Longrightarrow> page_inv (snd (settle env k s))"
  by (simp add: settle_def inv_resume inv_take_task ok_def)

lemma inv_set_readyState:
  "page_inv s \<Longrightarrow> r \<noteq> CONNECTING \<Longrightarrow> page_inv (set_readyState r s)"
  by (auto simp add: page_inv_def set_readyState_def split: option.splits)

lemma inv_clickStart:
  assumes "page_inv s" and "\<not> startBtn_disabled s"
  shows "page_inv (snd (clickStart env s))"
proof -
  from assms have fresh: "ws s = None" "peerConnection s = None" "\<not> connected s" "pending s = []"
    by (auto simp add: page_inv_def)
  then show ?thesis
    by (auto simp add: clickStart_def ensureLocalMedia_def connectWebSocket_def
        appendMessage_str updateStatus_str res_defs Let_def page_inv_def
        split: option.splits sum.splits)
qed

lemma inv_sendTextMessage: "page_inv s \<Longrightarrow> page_inv (snd (sendTextMessage s))"
  by (simp add: sendTextMessage_def Let_def ok_def inv_and_then)

lemma inv_sendFileMessage: "page_inv s \<Longrightarrow> page_inv (snd (sendFileMessage env s))"
  by (simp add: sendFileMessage_def ok_def throw_def inv_and_then
      split: list.splits sum.splits)

lemma inv_beforeunload: "page_inv s \<Longrightarrow> page_inv (snd (beforeunload s))"
  by (auto simp add: beforeunload_def Let_def ok_def page_inv_def split: option.splits)

lemma inv_fire:
  assumes s: "page_inv s" and e: "enabled s e"
  shows "page_inv (snd (fire env e s))"
proof (cases e)
  case ClickStart
  with s e show ?thesis by (simp add: inv_clickStart)
next
  case ClickNext
  with s show ?thesis
    by (simp add: clickNext_def ok_def inv_and_then inv_resetForWaiting)
next
  case (TypeChat str)
  with s show ?thesis by (simp add: ok_def)
next
  case SubmitChat
  with s show ?thesis by (simp add: inv_sendTextMessage)
next
  case (ChooseFiles fs)
  with s show ?thesis by (simp add: inv_sendFileMessage)
next
  case SocketOpened
  with s show ?thesis by (simp add: onopen_def inv_and_then inv_set_readyState)
next
  case (SocketMessage parsed)
  with s e show ?thesis by (simp add: inv_onmessage)
next
  case SocketClosing
  with s show ?thesis by (simp add: ok_def inv_set_readyState)
next
  case SocketClosed
  have "page_inv (closePeerConnection
      (set_readyState CLOSED s\<lparr> connected := False, nextBtn_disabled := True \<rparr>))"
    using s by (intro inv_closePeerConnection) (simp add: inv_disconnect inv_set_readyState)
  with SocketClosed show ?thesis
    by (simp add: onclose_def inv_and_then)
next
  case BeforeUnload
  with s show ?thesis by (simp add: inv_beforeunload)
next
  case (IceCandidate p c)
  with s show ?thesis by (simp add: onicecandidate_def ok_def)
next
  case (Track p streams)
  with s show ?thesis by (simp add: ontrack_def ok_def split: list.splits)
next
  case (Settle k)
  with s show ?thesis by (simp add: inv_settle)
qed

lemma reachable_inv: "reachable s \<Longrightarrow> page_inv s"
proof (induction rule: reachable.induct)
  case (start s)
  then show ?case by (simp add: initial_def page_inv_def)
next
  case (step s e env)
  then show ?case by (simp add: inv_fire)
qed

text \<open>
  So when a message is delivered on a page a run has reached, the socket is open, the local
  stream is there and \<open>peerConnection\<close>, if set, points to a stored connection, as does
  every waiting handler.
\<close>

lemma message_handler_preconditions:
  assumes "reachable s" and "enabled s (SocketMessage parsed)"
  shows "ws_open s \<and> (\<exists>stream. localStream s = Some stream) \<and>
     (\<forall>p. peerConnection s = Some p \<longrightarrow> p < length (pcs s))"
  using reachable_inv [OF assms(1)] assms(2)
  by (auto simp add: page_inv_def ws_open_def split: option.splits)

lemma waiting_handler_in_store:
  assumes "reachable s" and "k < length (pending s)"
  shows "task_pc (pending s ! k) < length (pcs s)"
  using reachable_inv [OF assms(1)] assms(2)
  by (simp add: page_inv_def)

section \<open>The offer/answer exchange\<close>




text \<open>
  C2, as the script has it. An \<^verbatim>\<open>offer\<close> message arrives and the browser constructs the
  description (and the connection, when there is none yet). The handler calls
  \<^verbatim>\<open>setRemoteDescription\<close> with the payload, on the connection there was or on a new one
  when there was none, and waits, having sent nothing. When that call has succeeded and
  \<^verbatim>\<open>peerConnection\<close> is still set, the payload is the remote description of the connection
  the call was made on, and the handler calls \<^verbatim>\<open>createAnswer\<close> and waits. When the answer is
  there and \<^verbatim>\<open>peerConnection\<close> is still set, it calls \<^verbatim>\<open>setLocalDescription\<close> and waits.
  When that call has succeeded and the socket is open, it sends the one frame
  \<^verbatim>\<open>{type: "answer", payload: answer}\<close> and is done. Run with no other handler in between,
  on an open socket and with all calls succeeding, the four stretches send exactly that
  one frame.
\<close>

theorem offer_answered_once:
  "(get_prop data ''type'' = Inr (JStr ''offer'') \<and>
    (peerConnection s = None \<longrightarrow> localStream s \<noteq> None \<and> newRTCPeerConnection env = None) \<and>
    newRTCSessionDescription env = None \<longrightarrow>
      (\<exists>s' p. onmessage env (Some data) s = (None, s') \<and>
         sentFrames s' = sentFrames s \<and>
         peerConnection s' = Some p \<and>
         p = (case peerConnection s of None \<Rightarrow> length (pcs s) | Some q \<Rightarrow> q) \<and>
         pending s' = pending s @ [Offer_setRemoteDescription p (opt_prop data ''payload'')])) \<and>
   (k < length (pending t) \<and> pending t ! k = Offer_setRemoteDescription p d \<and>
    setRemoteDescription env2 = None \<and> peerConnection t = Some q \<longrightarrow>
      (\<exists>t'. fire env2 (Settle k) t = (None, t') \<and>
         sentFrames t' = sentFrames t \<and>
         pending t' = take k (pending t) @ drop (Suc k) (pending t) @ [Offer_createAnswer q] \<and>
         (p < length (pcs t) \<longrightarrow> pc_remoteDescription (pcs t' ! p) = Some d))) \<and>
   (j < length (pending u) \<and> pending u ! j = Offer_createAnswer p \<and>
    createAnswer env3 = Inr answer \<and> peerConnection u = Some q \<longrightarrow>
      fire env3 (Settle j) u =
        (None, u\<lparr> pending := take j (pending u) @ drop (Suc j) (pending u) @
                                [Offer_setLocalDescription q answer] \<rparr>)) \<and>
   (i < length (pending v) \<and> pending v ! i = Offer_setLocalDescription q answer \<and>
    setLocalDescription env4 = None \<and> ws_open v \<longrightarrow>
      (\<exists>v'. fire env4 (Settle i) v = (None, v') \<and>
         sentFrames v' = sentFrames v @ [JObj [(''type'', JStr ''answer''), (''payload'', answer)]] \<and>
         pending v' = take i (pending v) @ drop (Suc i) (pending v) \<and>
         (q < length (pcs v) \<longrightarrow> pc_localDescription (pcs v' ! q) = Some answer))) \<and>
   (get_prop data ''type'' = Inr (JStr ''offer'') \<and>
    (peerConnection s = None \<longrightarrow> localStream s \<noteq> None \<and> newRTCPeerConnection env = None) \<and>
    newRTCSessionDescription env = None \<and> ws_open s \<and>
    setRemoteDescription env2 = None \<and> createAnswer env3 = Inr answer \<and>
    setLocalDescription env4 = None \<longrightarrow>
      sentFrames (run [(env, SocketMessage (Some data)), (env2, Settle (length (pending s))),
                       (env3, Settle (length (pending s))),
                       (env4, Settle (length (pending s)))] s) =
        sentFrames s @ [JObj [(''type'', JStr ''answer''), (''payload'', answer)]] \<and>
      pending (run [(env, SocketMessage (Some data)), (env2, Settle (length (pending s))),
                    (env3, Settle (length (pending s))),
                    (env4, Settle (length (pending s)))] s) = pending s)"
proof -
  define s1 where "s1 = snd (if peerConnection s = None then createPeerConnection env s else ok s)"
  define p1 where "p1 = (case peerConnection s of None \<Rightarrow> length (pcs s) | Some q \<Rightarrow> q)"
  have first: "onmessage env (Some data) s =
      (None, s1\<lparr> pending := pending s @
          [Offer_setRemoteDescription p1 (opt_prop data ''payload'')] \<rparr>) \<and>
      sentFrames s1 = sentFrames s \<and> ws_open s1 = ws_open s \<and> pending s1 = pending s \<and>
      peerConnection s1 = Some p1"
    if h: "get_prop data ''type'' = Inr (JStr ''offer'')"
      "peerConnection s = None \<longrightarrow> localStream s \<noteq> None \<and> newRTCPeerConnection env = None"
      "newRTCSessionDescription env = None"
  proof (cases "peerConnection s")
    case None
    with h(2) obtain stream
      where "localStream s = Some stream" and "newRTCPeerConnection env = None"
      by auto
    with None h show ?thesis
      by (simp add: s1_def p1_def onmessage_def createPeerConnection_ok
          await_setRemoteDescription_def res_defs)
  next
    case (Some q)
    with h show ?thesis
      by (simp add: s1_def p1_def onmessage_def await_setRemoteDescription_def res_defs)
  qed
  have received: "get_prop data ''type'' = Inr (JStr ''offer'') \<and>
    (peerConnection s = None \<longrightarrow> localStream s \<noteq> None \<and> newRTCPeerConnection env = None) \<and>
    newRTCSessionDescription env = None \<longrightarrow>
      (\<exists>s' p. onmessage env (Some data) s = (None, s') \<and>
         sentFrames s' = sentFrames s \<and>
         peerConnection s' = Some p \<and>
         p = (case peerConnection s of None \<Rightarrow> length (pcs s) | Some q \<Rightarrow> q) \<and>
         pending s' = pending s @ [Offer_setRemoteDescription p (opt_prop data ''payload'')])"
    using first by (auto simp add: p1_def)
  have remote: "k < length (pending t) \<and> pending t ! k = Offer_setRemoteDescription p d \<and>
    setRemoteDescription env2 = None \<and> peerConnection t = Some q \<longrightarrow>
      (\<exists>t'. fire env2 (Settle k) t = (None, t') \<and>
         sentFrames t' = sentFrames t \<and>
         pending t' = take k (pending t) @ drop (Suc k) (pending t) @ [Offer_createAnswer q] \<and>
         (p < length (pcs t) \<longrightarrow> pc_remoteDescription (pcs t' ! p) = Some d))"
    by (simp add: settle_def offer_remote_set_def await_pc_def ok_def)
  have created: "j < length (pending u) \<and> pending u ! j = Offer_createAnswer p \<and>
    createAnswer env3 = Inr answer \<and> peerConnection u = Some q \<longrightarrow>
      fire env3 (Settle j) u =
        (None, u\<lparr> pending := take j (pending u) @ drop (Suc j) (pending u) @
                                [Offer_setLocalDescription q answer] \<rparr>)"
    by (simp add: settle_def offer_answer_created_def await_pc_def ok_def)
  have sent: "i < length (pending v) \<and> pending v ! i = Offer_setLocalDescription q answer \<and>
    setLocalDescription env4 = None \<and> ws_open v \<longrightarrow>
      (\<exists>v'. fire env4 (Settle i) v = (None, v') \<and>
         sentFrames v' = sentFrames v @ [JObj [(''type'', JStr ''answer''), (''payload'', answer)]] \<and>
         pending v' = take i (pending v) @ drop (Suc i) (pending v) \<and>
         (q < length (pcs v) \<longrightarrow> pc_localDescription (pcs v' ! q) = Some answer))"
    by (simp add: settle_def offer_description_set_def sendWs_eq answer_msg_def)
  have whole: "get_prop data ''type'' = Inr (JStr ''offer'') \<and>
    (peerConnection s = None \<longrightarrow> localStream s \<noteq> None \<and> newRTCPeerConnection env = None) \<and>
    newRTCSessionDescription env = None \<and> ws_open s \<and>
    setRemoteDescription env2 = None \<and> createAnswer env3 = Inr answer \<and>
    setLocalDescription env4 = None \<longrightarrow>
      sentFrames (run [(env, SocketMessage (Some data)), (env2, Settle (length (pending s))),
                       (env3, Settle (length (pending s))),
                       (env4, Settle (length (pending s)))] s) =
        sentFrames s @ [JObj [(''type'', JStr ''answer''), (''payload'', answer)]] \<and>
      pending (run [(env, SocketMessage (Some data)), (env2, Settle (length (pending s))),
                    (env3, Settle (length (pending s))),
                    (env4, Settle (length (pending s)))] s) = pending s"
    using first
    by (auto simp add: settle_def offer_remote_set_def offer_answer_created_def
        offer_description_set_def await_pc_def sendWs_eq answer_msg_def ok_def)
  show ?thesis
    by (intro conjI received remote created sent whole)
qed

theorem offer_answered_once_witness:
  "sentFrames (run [(env_ok, SocketMessage (Some (JObj [(''type'', JStr ''offer''),
                                                         (''payload'', demo_offer)]))),
                    (env_ok, Settle 0), (env_ok, Settle 0), (env_ok, Settle 0)] waiting_page) =
     [JObj [(''type'', JStr ''answer''), (''payload'', demo_answer)]] \<and>
   pending (run [(env_ok, SocketMessage (Some (JObj [(''type'', JStr ''offer''),
                                                     (''payload'', demo_offer)]))),
                 (env_ok, Settle 0), (env_ok, Settle 0), (env_ok, Settle 0)] waiting_page) = [] \<and>
   sentFrames (run [(env_ok, SocketMessage (Some (JObj [(''type'', JStr ''offer''),
                                                         (''payload'', demo_offer)]))),
                    (env_ok, Settle 0), (env_ok, Settle 0), (env_ok, Settle 0)] matched_page) =
     [offer_msg demo_offer, JObj [(''type'', JStr ''answer''), (''payload'', demo_answer)]]"
  using offer_answered_once
      [of "JObj [(''type'', JStr ''offer''), (''payload'', demo_offer)]"
        waiting_page env_ok 0 waiting_page 0 demo_offer env_ok 0 0 waiting_page env_ok
        demo_answer 0 waiting_page env_ok]
    offer_answered_once
      [of "JObj [(''type'', JStr ''offer''), (''payload'', demo_offer)]"
        matched_page env_ok 0 waiting_page 0 demo_offer env_ok 0 0 waiting_page env_ok
        demo_answer 0 waiting_page env_ok]
  by (simp add: waiting_page_def matched_page_def env_ok_def ws_open_def)

text \<open>
  C2 as the specification states it fails on the waiting page. When
  \<^verbatim>\<open>setRemoteDescription\<close> rejects the offer, the handler ends with nothing sent. When a
  \<^verbatim>\<open>partner_disconnected\<close> message arrives while \<^verbatim>\<open>setRemoteDescription\<close> is awaited,
  \<^verbatim>\<open>peerConnection\<close> is \<^verbatim>\<open>null\<close> as the handler resumes, it throws a \<^verbatim>\<open>TypeError\<close> and ends
  with nothing sent.
\<close>

theorem offer_not_answered_when_rejected_or_reset:
  "sentFrames (run [(env_ok, SocketMessage (Some (JObj [(''type'', JStr ''offer''),
                                                         (''payload'', demo_offer)]))),
                    (env_bad_description, Settle 0)] waiting_page) = [] \<and>
   pending (run [(env_ok, SocketMessage (Some (JObj [(''type'', JStr ''offer''),
                                                     (''payload'', demo_offer)]))),
                 (env_bad_description, Settle 0)] waiting_page) = [] \<and>
   fst (fire env_ok (Settle 0)
         (run [(env_ok, SocketMessage (Some (JObj [(''type'', JStr ''offer''),
                                                   (''payload'', demo_offer)]))),
               (env_ok, SocketMessage (Some (JObj [(''type'', JStr ''partner_disconnected''),
                                                   (''message'', JStr ''Stranger left.'')])))]
            waiting_page)) = Some TypeError \<and>
   sentFrames (run [(env_ok, SocketMessage (Some (JObj [(''type'', JStr ''offer''),
                                                         (''payload'', demo_offer)]))),
                    (env_ok, SocketMessage (Some (JObj [(''type'', JStr ''partner_disconnected''),
                                                         (''message'', JStr ''Stranger left.'')]))),
                    (env_ok, Settle 0)] waiting_page) = [] \<and>
   pending (run [(env_ok, SocketMessage (Some (JObj [(''type'', JStr ''offer''),
                                                     (''payload'', demo_offer)]))),
                 (env_ok, SocketMessage (Some (JObj [(''type'', JStr ''partner_disconnected''),
                                                     (''message'', JStr ''Stranger left.'')]))),
                 (env_ok, Settle 0)] waiting_page) = []"
  by (simp add: waiting_page_def env_ok_def env_bad_description_def run_defs)

section \<open>Returning to waiting\<close>




text \<open>
  C4, as the script has it. A \<^verbatim>\<open>status\<close> message puts the page back to waiting:
  \<^verbatim>\<open>connected\<close> becomes false, \<^verbatim>\<open>peerConnection\<close> becomes \<^verbatim>\<open>null\<close> and the connection it
  pointed to is closed, and the remote video loses its source. Nothing is sent, and the
  socket, the local stream and the chat log stay as they were. When the message (or
  "Waiting for a stranger..." in place of a missing or falsy one) converts to a string,
  as every string, number and boolean does, the handler ends without an exception, the
  status text is that string and the dot shows waiting. On a page that is waiting already
  (not connected, no peer connection, no remote video) the status text and dot are all
  that can change.
\<close>

theorem status_resets_for_waiting:
  assumes "get_prop data ''type'' = Inr (JStr ''status'')"
  shows "\<exists>r s'. onmessage env (Some data) s = (r, s') \<and>
      \<not> connected s' \<and>
      peerConnection s' = None \<and>
      (\<forall>p. peerConnection s = Some p \<and> p < length (pcs s) \<longrightarrow> pc_closed (pcs s' ! p)) \<and>
      remoteVideo_srcObject s' = None \<and>
      sentFrames s' = sentFrames s \<and> ws s' = ws s \<and> localStream s' = localStream s \<and>
      chatMessages s' = chatMessages s \<and>
      (\<forall>str. to_string (js_or (opt_prop data ''message'') (JStr ''Waiting for a stranger...''))
              = Inr str \<longrightarrow>
         r = None \<and> statusText s' = str \<and> shows_status ''waiting'' (statusDot s')) \<and>
      (\<not> connected s \<and> peerConnection s = None \<and> remoteVideo_srcObject s = None \<longrightarrow>
         s' = s\<lparr> statusText := statusText s', statusDot := statusDot s' \<rparr>)"
proof -
  let ?v = "js_or (opt_prop data ''message'') (JStr ''Waiting for a stranger...'')"
  have v: "truthy ?v" by (simp add: js_or_truthy)
  show ?thesis
  proof (cases "to_string ?v")
    case (Inl e)
    with assms v closePeerConnection_closes [of "s\<lparr> connected := False \<rparr>"] show ?thesis
      by (simp add: onmessage_def resetForWaiting_eq idle_closePeerConnection same_status)
  next
    case (Inr str)
    with assms v closePeerConnection_closes [of "s\<lparr> connected := False \<rparr>"] show ?thesis
      by (simp add: onmessage_def resetForWaiting_eq idle_closePeerConnection classList_shows)
  qed
qed

theorem status_resets_for_waiting_witness:
  "(\<exists>r s'. onmessage env_ok
            (Some (JObj [(''type'', JStr ''status''), (''message'', JStr ''Waiting for a match'')]))
            matched_page = (r, s') \<and> r = None \<and>
      statusText s' = ''Waiting for a match'' \<and>
      \<not> connected s' \<and> peerConnection s' = None \<and> pc_closed (pcs s' ! 0) \<and>
      sentFrames s' = sentFrames matched_page) \<and>
   (\<exists>r s'. onmessage env_ok
            (Some (JObj [(''type'', JStr ''status''), (''message'', JNum ''42'')]))
            waiting_page = (r, s') \<and> r = None \<and>
      s' = waiting_page\<lparr> statusText := ''42'', statusDot := statusDot s' \<rparr>)"
  using status_resets_for_waiting
      [of "JObj [(''type'', JStr ''status''), (''message'', JStr ''Waiting for a match'')]"
        env_ok matched_page]
    status_resets_for_waiting
      [of "JObj [(''type'', JStr ''status''), (''message'', JNum ''42'')]"
        env_ok waiting_page]
  by (auto simp add: matched_page_def waiting_page_def opt_prop_def js_or_def)

text \<open>
  C4 as the specification states it fails on a matched page: before the \<^verbatim>\<open>status\<close>
  message \<^verbatim>\<open>connected\<close> is true and \<^verbatim>\<open>peerConnection\<close> points to an open connection;
  after it \<^verbatim>\<open>connected\<close> is false, \<^verbatim>\<open>peerConnection\<close> is \<^verbatim>\<open>null\<close> and that connection is
  closed.
\<close>

theorem status_changes_connection_state:
  "connected matched_page \<and> peerConnection matched_page = Some 0 \<and>
   \<not> pc_closed (pcs matched_page ! 0) \<and>
   \<not> connected (snd (onmessage env_ok
       (Some (JObj [(''type'', JStr ''status''), (''message'', JStr ''Waiting for a match'')]))
       matched_page)) \<and>
   peerConnection (snd (onmessage env_ok
       (Some (JObj [(''type'', JStr ''status''), (''message'', JStr ''Waiting for a match'')]))
       matched_page)) = None \<and>
   pc_closed (pcs (snd (onmessage env_ok
       (Some (JObj [(''type'', JStr ''status''), (''message'', JStr ''Waiting for a match'')]))
       matched_page)) ! 0)"
  by (simp add: matched_page_def onmessage_def resetForWaiting_str closePeerConnection_def
      opt_prop_def js_or_def res_defs Let_def)

text \<open>
  C6. A click on Next while the socket is open ends without an exception, sends exactly
  the one frame \<^verbatim>\<open>{type: "next"}\<close>, which has no payload, and leaves the page waiting:
  \<^verbatim>\<open>connected\<close> false, \<^verbatim>\<open>peerConnection\<close> \<^verbatim>\<open>null\<close> and the connection it pointed to closed.
  While the socket is absent or not open the click changes nothing at all.
\<close>

theorem next_sends_once_and_resets:
  "(ws_open s \<longrightarrow>
      (\<exists>s'. clickNext s = (None, s') \<and>
         sentFrames s' = sentFrames s @ [JObj [(''type'', JStr ''next'')]] \<and>
         \<not> connected s' \<and>
         peerConnection s' = None \<and>
         (\<forall>p. peerConnection s = Some p \<and> p < length (pcs s) \<longrightarrow> pc_closed (pcs s' ! p)) \<and>
         remoteVideo_srcObject s' = None \<and>
         shows_status ''waiting'' (statusDot s'))) \<and>
   (\<not> ws_open s \<longrightarrow> clickNext s = (None, s))"
  using closePeerConnection_closes [of "s\<lparr> chatMessages := cm, connected := False \<rparr>" for cm]
  by (simp add: clickNext_def appendMessage_str res_defs sendWs_eq next_msg_def
      resetForWaiting_str classList_shows)

theorem next_sends_once_and_resets_witness:
  "(\<exists>s'. clickNext matched_page = (None, s') \<and>
      sentFrames s' = [offer_msg demo_offer, JObj [(''type'', JStr ''next'')]] \<and>
      \<not> connected s' \<and> peerConnection s' = None \<and> pc_closed (pcs s' ! 0)) \<and>
   clickNext fresh_page = (None, fresh_page)"
  using next_sends_once_and_resets [of matched_page] next_sends_once_and_resets [of fresh_page]
  by (auto simp add: matched_page_def fresh_page_def ws_open_def)

section \<open>Starting\<close>

text \<open>
  C5. Start is clicked with no local stream yet and \<^verbatim>\<open>getUserMedia\<close> rejects. The handler
  ends without an exception, \<^verbatim>\<open>ws\<close> is what it was (so no socket is made where there was
  none), the Start button is enabled again, the dot shows disconnected under the text
  "Permissions required", and the error is on the console. Nothing is sent and there is
  still no local stream.
\<close>

theorem media_failure_opens_no_socket:
  assumes "localStream s = None" and "getUserMedia env = Inl e"
  shows "\<exists>s'. clickStart env s = (None, s') \<and>
      ws s' = ws s \<and>
      \<not> startBtn_disabled s' \<and>
      shows_status ''disconnected'' (statusDot s') \<and>
      statusText s' = ''Permissions required'' \<and>
      localStream s' = None \<and>
      connected s' = connected s \<and>
      sentFrames s' = sentFrames s \<and>
      console s' = console s @ [e]"
  using assms
  by (simp add: clickStart_def ensureLocalMedia_def appendMessage_str res_defs updateStatus_str
      classList_shows)

theorem media_failure_opens_no_socket_witness:
  "\<exists>s'. clickStart env_denied fresh_page = (None, s') \<and>
      ws s' = None \<and> \<not> startBtn_disabled s' \<and>
      shows_status ''disconnected'' (statusDot s') \<and>
      statusText s' = ''Permissions required'' \<and> sentFrames s' = [] \<and>
      console s' = [DOMException ''NotAllowedError'']"
  using media_failure_opens_no_socket
      [of fresh_page env_denied "DOMException ''NotAllowedError''"]
  by (auto simp add: fresh_page_def env_denied_def env_ok_def)

section \<open>Chat and files\<close>

text \<open>
  C7, as the script has it. Submitting the chat form never throws, and it sends a frame
  exactly when the trimmed input is not empty, \<^verbatim>\<open>connected\<close> is true and the socket is
  open; the frame is then the one \<^verbatim>\<open>chat\<close> message whose payload is \<^verbatim>\<open>{text}\<close> with the
  trimmed input. In particular nothing is sent while \<^verbatim>\<open>connected\<close> is false.
\<close>

theorem chat_sent_iff_text_connected_open:
  "fst (sendTextMessage s) = None \<and>
   sentFrames (snd (sendTextMessage s)) = sentFrames s @
     (if trim (chatInput_value s) \<noteq> [] \<and> connected s \<and> ws_open s
      then [JObj [(''type'', JStr ''chat''),
                  (''payload'', JObj [(''text'', JStr (trim (chatInput_value s)))])]]
      else [])"
  by (simp add: sendTextMessage_def Let_def sendWs_eq appendMessage_str res_defs chat_msg_def)

theorem chat_sent_iff_text_connected_open_witness:
  "fst (sendTextMessage matched_page) = None \<and>
   sentFrames (snd (sendTextMessage matched_page)) =
     [offer_msg demo_offer,
      JObj [(''type'', JStr ''chat''), (''payload'', JObj [(''text'', JStr ''hi'')])]] \<and>
   sentFrames (snd (sendTextMessage (matched_page\<lparr> chatInput_value := [CHR 0xA0, CHR 0x09] \<rparr>))) =
     [offer_msg demo_offer]"
  using chat_sent_iff_text_connected_open [of matched_page]
    chat_sent_iff_text_connected_open [of "matched_page\<lparr> chatInput_value := [CHR 0xA0, CHR 0x09] \<rparr>"]
  by (simp add: matched_page_def ws_open_def trim_def is_space_def)

text \<open>
  C7 as the specification states it fails on a page that can be reached from the loaded
  one: matched, with the socket closing after \<^verbatim>\<open>ws.close()\<close> and before its close event.
  The trimmed input is not empty and \<^verbatim>\<open>connected\<close> is true, yet submitting sends nothing.
\<close>

theorem chat_dropped_while_socket_closing:
  "reachable (run closing_trace fresh_page) \<and>
   trim (chatInput_value (run closing_trace fresh_page)) \<noteq> [] \<and>
   connected (run closing_trace fresh_page) \<and>
   sentFrames (snd (sendTextMessage (run closing_trace fresh_page))) =
     sentFrames (run closing_trace fresh_page)"
  using closing_page_reachable
  by (simp add: closing_page_eq sendTextMessage_def trim_def is_space_def sendWs_def
      appendMessage_str res_defs Let_def)

text \<open>
  C8. Whatever the event, the state and the browser's answers, a frame the event sends
  with type \<^verbatim>\<open>media\<close> comes from the change of the file input and is the object with the
  type and a payload of exactly four fields, in this order: \<^verbatim>\<open>fileName\<close> the file's name,
  \<^verbatim>\<open>mimeType\<close> the file's type or \<^verbatim>\<open>application/octet-stream\<close> when the type is empty,
  \<^verbatim>\<open>dataUrl\<close> what the reader gave, and \<^verbatim>\<open>text\<close> the name after "Shared ".
\<close>

theorem media_frames_have_four_fields:
  "\<exists>new. sentFrames (snd (fire env e s)) = sentFrames s @ new \<and>
     (\<forall>m \<in> set new. get_prop m ''type'' = Inr (JStr ''media'') \<longrightarrow>
        (\<exists>f rest dataUrl. e = ChooseFiles (f # rest) \<and> readAsDataURL env = Inr dataUrl \<and>
           m = JObj [(''type'', JStr ''media''),
                 (''payload'', JObj
                    [(''fileName'', JStr (file_name f)),
                     (''mimeType'', JStr (if file_type f = [] then ''application/octet-stream''
                                          else file_type f)),
                     (''dataUrl'', JStr dataUrl),
                     (''text'', JStr (''Shared '' @ file_name f))])]))"
proof -
  from fire_sends [of env e s] obtain new where
    eq: "sentFrames (snd (fire env e s)) = sentFrames s @ new" and
    new: "new = [] \<or>
      (ws_open s \<and>
        ((\<exists>x. new = [offer_msg x]) \<or> (\<exists>x. new = [answer_msg x]) \<or>
         (\<exists>x. new = [ice_msg x]) \<or> new = [next_msg] \<or> (\<exists>t. new = [chat_msg t]) \<or>
         (\<exists>f rest u. e = ChooseFiles (f # rest) \<and> readAsDataURL env = Inr u \<and>
            new = [JObj [(''type'', JStr ''media''),
               (''payload'', JObj
                 [(''fileName'', JStr (file_name f)),
                  (''mimeType'', JStr (if file_type f = [] then ''application/octet-stream''
                                       else file_type f)),
                  (''dataUrl'', JStr u),
                  (''text'', JStr (''Shared '' @ file_name f))])]])))"
    by blast
  from new have "\<forall>m \<in> set new. get_prop m ''type'' = Inr (JStr ''media'') \<longrightarrow>
        (\<exists>f rest dataUrl. e = ChooseFiles (f # rest) \<and> readAsDataURL env = Inr dataUrl \<and>
           m = JObj [(''type'', JStr ''media''),
                 (''payload'', JObj
                    [(''fileName'', JStr (file_name f)),
                     (''mimeType'', JStr (if file_type f = [] then ''application/octet-stream''
                                          else file_type f)),
                     (''dataUrl'', JStr dataUrl),
                     (''text'', JStr (''Shared '' @ file_name f))])])"
    by (auto simp add: offer_msg_def answer_msg_def ice_msg_def next_msg_def chat_msg_def)
  with eq show ?thesis by blast
qed

theorem media_frames_have_four_fields_witness:
  "sentFrames (snd (fire env_ok (ChooseFiles [png_file]) matched_page)) =
     [offer_msg demo_offer,
      JObj [(''type'', JStr ''media''),
            (''payload'', JObj
               [(''fileName'', JStr ''cat.png''), (''mimeType'', JStr ''image/png''),
                (''dataUrl'', JStr ''data:image/png;base64,AAAA''),
                (''text'', JStr ''Shared cat.png'')])]] \<and>
   sentFrames (snd (fire env_ok (ChooseFiles [plain_file]) matched_page)) =
     [offer_msg demo_offer,
      JObj [(''type'', JStr ''media''),
            (''payload'', JObj
               [(''fileName'', JStr ''notes''), (''mimeType'', JStr ''application/octet-stream''),
                (''dataUrl'', JStr ''data:image/png;base64,AAAA''),
                (''text'', JStr ''Shared notes'')])]]"
  using media_frames_have_four_fields [of env_ok "ChooseFiles [png_file]" matched_page]
    media_frames_have_four_fields [of env_ok "ChooseFiles [plain_file]" matched_page]
  by (simp add: sendFileMessage_sends matched_page_def env_ok_def png_file_def plain_file_def
      maxSize_def ws_open_def)

text \<open>
  C9, as the script has it. A file of more than 8 * 1024 * 1024 bytes is chosen. The
  handler ends without an exception and sends nothing. While \<^verbatim>\<open>connected\<close> is true it
  appends the local message "File too large. Max allowed is 8MB for MVP." and empties the
  file input; while \<^verbatim>\<open>connected\<close> is false it changes nothing.
\<close>

theorem oversize_file_never_sent:
  assumes "fileInput_files s = f # rest" and "file_size f > 8 * 1024 * 1024"
  shows "fst (sendFileMessage env s) = None \<and>
     sentFrames (snd (sendFileMessage env s)) = sentFrames s \<and>
     (if connected s
      then chatMessages (snd (sendFileMessage env s)) = chatMessages s @
             [\<lparr> msg_class = ''msg system'', msg_label = ''System: '',
                msg_text = ''File too large. Max allowed is 8MB for MVP.'',
                msg_media = [] \<rparr>] \<and>
           fileInput_files (snd (sendFileMessage env s)) = []
      else snd (sendFileMessage env s) = s)"
  using assms
  by (simp add: sendFileMessage_def maxSize_def appendMessage_str res_defs)

theorem oversize_file_never_sent_witness:
  "fst (sendFileMessage env_ok (matched_page\<lparr> fileInput_files := [big_file] \<rparr>)) = None \<and>
   sentFrames (snd (sendFileMessage env_ok (matched_page\<lparr> fileInput_files := [big_file] \<rparr>))) =
     [offer_msg demo_offer] \<and>
   chatMessages (snd (sendFileMessage env_ok (matched_page\<lparr> fileInput_files := [big_file] \<rparr>))) =
     [\<lparr> msg_class = ''msg system'', msg_label = ''System: '',
        msg_text = ''File too large. Max allowed is 8MB for MVP.'', msg_media = [] \<rparr>] \<and>
   fileInput_files (snd (sendFileMessage env_ok (matched_page\<lparr> fileInput_files := [big_file] \<rparr>))) = []"
  using oversize_file_never_sent
      [of "matched_page\<lparr> fileInput_files := [big_file] \<rparr>" big_file "[]" env_ok]
  by (simp add: matched_page_def big_file_def)

text \<open>
  C9 as the specification states it fails while the page is not matched: the file is
  over the limit, yet no message is appended to the chat log and the file stays chosen.
\<close>

theorem oversize_file_silent_while_unmatched:
  "file_size big_file > 8 * 1024 * 1024 \<and>
   \<not> connected (waiting_page\<lparr> fileInput_files := [big_file] \<rparr>) \<and>
   chatMessages (snd (sendFileMessage env_ok (waiting_page\<lparr> fileInput_files := [big_file] \<rparr>))) =
     chatMessages waiting_page \<and>
   fileInput_files (snd (sendFileMessage env_ok (waiting_page\<lparr> fileInput_files := [big_file] \<rparr>))) =
     [big_file]"
  by (simp add: sendFileMessage_def waiting_page_def big_file_def res_defs)

section \<open>The guard on sending\<close>

text \<open>
  C10. \<^verbatim>\<open>sendWs\<close> never throws; it appends the message to the frames sent when the socket
  exists and is open, and otherwise leaves the state as it is. No event sends anything
  while the socket is absent or not open.
\<close>

theorem sendWs_guarded:
  "fst (sendWs d s) = None \<and>
   snd (sendWs d s) = (if ws_open s then s\<lparr> sentFrames := sentFrames s @ [d] \<rparr> else s) \<and>
   (\<not> ws_open s \<longrightarrow> sentFrames (snd (fire env e s)) = sentFrames s)"
  using fire_sends [of env e s] by (auto simp add: sendWs_eq)

theorem sendWs_guarded_witness:
  "fst (sendWs next_msg (run closing_trace fresh_page)) = None \<and>
   snd (sendWs next_msg (run closing_trace fresh_page)) = run closing_trace fresh_page \<and>
   sentFrames (snd (fire env_ok SubmitChat (run closing_trace fresh_page))) =
     sentFrames (run closing_trace fresh_page) \<and>
   sentFrames (snd (sendWs next_msg waiting_page)) = [next_msg]"
  using sendWs_guarded [of next_msg "run closing_trace fresh_page" env_ok SubmitChat]
    sendWs_guarded [of next_msg waiting_page env_ok SubmitChat]
  by (simp add: closing_page_eq waiting_page_def ws_open_def)

end
